theory Spec2Isabelle
  imports Main "HOL-Library.Sublist"
begin

section \<open>JavaScript values used by server.js\<close>

text \<open>
  The payload of an event is taken to be an object. Its fields are client supplied and may
  be missing: a missing (undefined) field is \<open>None\<close>. The falsy strings of JavaScript are
  undefined and the empty string. A chat id in a payload is a string (the keys of
  \<^verbatim>\<open>activeChats\<close> are strings, so any other value is an unknown id).
\<close>

definition truthy :: "string option \<Rightarrow> bool" where
  "truthy v = (case v of None \<Rightarrow> False | Some s \<Rightarrow> s \<noteq> [])"

text \<open>\<^verbatim>\<open>a || b\<close> with a string default.\<close>

definition or_else :: "string option \<Rightarrow> string \<Rightarrow> string" where
  "or_else v d = (case v of None \<Rightarrow> d | Some s \<Rightarrow> (if s = [] then d else s))"

text \<open>\<^verbatim>\<open>a || b\<close> where both sides may be undefined.\<close>

definition or_opt :: "string option \<Rightarrow> string option \<Rightarrow> string option" where
  "or_opt v d = (if truthy v then v else d)"

subsection \<open>Map objects\<close>

text \<open>
  A JavaScript \<^verbatim>\<open>Map\<close> keeps its entries in insertion order. As in ECMAScript's own
  definition, the entry list only grows: \<^verbatim>\<open>delete\<close> empties the entry (here \<open>None\<close>),
  \<^verbatim>\<open>set\<close> overwrites the value of a present key in place and appends a new key at the
  end, and an iterator is an index into the entry list. That is what a \<^verbatim>\<open>for ... of\<close>
  loop suspended at an \<^verbatim>\<open>await\<close> sees when the map changes meanwhile.
\<close>

type_synonym ('k, 'v) jsmap = "('k \<times> 'v) option list"

fun jm_get :: "('k, 'v) jsmap \<Rightarrow> 'k \<Rightarrow> 'v option" where
  "jm_get [] k = None"
| "jm_get (None # m) k = jm_get m k"
| "jm_get (Some (k', v) # m) k = (if k' = k then Some v else jm_get m k)"

fun jm_set :: "('k, 'v) jsmap \<Rightarrow> 'k \<Rightarrow> 'v \<Rightarrow> ('k, 'v) jsmap" where
  "jm_set [] k v = [Some (k, v)]"
| "jm_set (None # m) k v = None # jm_set m k v"
| "jm_set (Some (k', v') # m) k v =
     (if k' = k then Some (k, v) # m else Some (k', v') # jm_set m k v)"

fun jm_delete :: "('k, 'v) jsmap \<Rightarrow> 'k \<Rightarrow> ('k, 'v) jsmap" where
  "jm_delete [] k = []"
| "jm_delete (None # m) k = None # jm_delete m k"
| "jm_delete (Some (k', v') # m) k =
     (if k' = k then None # m else Some (k', v') # jm_delete m k)"

definition jm_values :: "('k, 'v) jsmap \<Rightarrow> 'v list" where
  "jm_values m = map snd (List.map_filter (\<lambda>e. e) m)"

section \<open>Data model\<close>

text \<open>The message objects built by the \<^verbatim>\<open>user_message\<close> and \<^verbatim>\<open>message_from_agent\<close> handlers.\<close>

record message =
  msg_id :: string
  content :: "string option"
  sender :: string
  senderName :: "string option"
  time :: string

text \<open>
  The chat object built by \<^verbatim>\<open>user_join_chat\<close>. The property \<^verbatim>\<open>agent\<close> is absent
  (undefined, \<open>None\<close>) until \<^verbatim>\<open>message_from_agent\<close> assigns it.
\<close>

record chat =
  chatroom_id :: string
  userId :: "string option"
  userName :: "string option"
  userEmail :: string
  userPhone :: string
  userIp :: string
  messages :: "message list"
  createdAt :: string
  socketId :: string
  agent :: "string option"

text \<open>The entry of \<^verbatim>\<open>connectedAgents\<close>.\<close>

record agent_conn =
  agentId :: "string option"
  agentName :: "string option"
  ac_socketId :: string
  ac_origin :: "string option"
  connectedAt :: string

text \<open>
  The object \<^verbatim>\<open>chatData\<close> of \<^verbatim>\<open>saveChatToDatabase\<close>. Its scalar fields are copies taken when
  the object is built. Its field \<^verbatim>\<open>messages\<close> is the array \<^verbatim>\<open>chat.messages\<close> itself, not a
  copy: \<open>messages_ref\<close> is the address of the chat object that owns the array (the array is
  created with the chat and only ever changed by \<^verbatim>\<open>push\<close>, so the two have one identity).
\<close>

record chatData =
  cd_chatroom_id :: string
  agent_id :: "string option"
  user_id :: "string option"
  user_name :: "string option"
  user_email :: string
  user_phone :: string
  user_ip :: string
  socket_id :: string
  status :: string
  last_message_at :: string
  messages_ref :: nat

text \<open>
  What \<^verbatim>\<open>JSON.stringify(chatData)\<close> writes: the scalar fields of the object and the contents
  the message array has when the call runs.
\<close>

type_synonym persisted = "chatData \<times> message list"


text \<open>The outcome object \<^verbatim>\<open>saveChatToDatabase\<close> returns.\<close>

record save_result =
  success :: bool
  sr_chatId :: "string option"
  fallback :: bool

text \<open>
  \<^verbatim>\<open>saveChatToDatabase\<close> is an async function: it runs until an \<^verbatim>\<open>await\<close>, and other
  handlers run before it is resumed. \<open>save_pc\<close> is the point at which a call is suspended,
  with the objects its continuation still holds:
  \<^item> \<open>Await_fetch\<close>: at \<^verbatim>\<open>await fetch(...)\<close>;
  \<^item> \<open>Await_json\<close>: at \<^verbatim>\<open>await response.json()\<close>;
  \<^item> \<open>Await_fs\<close>: in the \<^verbatim>\<open>catch\<close> block, at the awaits of the two imports and of
    \<^verbatim>\<open>fs.mkdir\<close> (one suspension here: the function does nothing between them);
  \<^item> \<open>Await_write\<close>: at \<^verbatim>\<open>await fs.writeFile(...)\<close>, with the file name (chat id and
    \<^verbatim>\<open>Date.now()\<close>) and the text handed to it.
\<close>

datatype save_pc =
    Await_fetch chatData
  | Await_json chatData
  | Await_fs chatData
  | Await_write chatData "string \<times> int" persisted

text \<open>
  How the awaited operation ended: fulfilled, rejected, or (for \<^verbatim>\<open>fetch\<close> only) fulfilled
  with a response whose \<^verbatim>\<open>ok\<close> is false.
\<close>

datatype io = Io_ok | Io_fail | Io_not_ok

text \<open>
  The callers of \<^verbatim>\<open>saveChatToDatabase\<close>, suspended at \<^verbatim>\<open>await saveChatToDatabase(chat)\<close>:
  the \<^verbatim>\<open>save_chat\<close> handler (socket id, chat id), the \<^verbatim>\<open>close_chat\<close> handler, the
  inactivity timer's callback, the periodic sweep (its \<^verbatim>\<open>now\<close>, its
  \<^verbatim>\<open>savedCount\<close>, the position of its iterator, the chat id of the entry it is at), and
  the \<^verbatim>\<open>disconnect\<close> handler (socket id, the \<^verbatim>\<open>agentName\<close> of the agent object it holds,
  the position of its iterator).
\<close>

datatype task_kind =
    K_save_chat string string
  | K_close_chat string
  | K_timer string
  | K_sweep int nat nat string
  | K_disconnect string "string option" nat

type_synonym task = "task_kind \<times> save_pc"

subsection \<open>Configuration, connections, clock\<close>

record env =
  AGENT_ORIGINS :: "string list"
  CHAT_API_URL :: "string option"

text \<open>
  A connected socket: its id, \<^verbatim>\<open>handshake.headers.origin || handshake.headers.referer\<close>,
  and \<^verbatim>\<open>handshake.address\<close>.
\<close>

record socket =
  sock_id :: string
  sock_origin :: "string option"
  sock_address :: "string option"

text \<open>
  What the clock and the random generator give to one handler run: \<^verbatim>\<open>Date.now()\<close>,
  \<^verbatim>\<open>new Date().toISOString()\<close>, and the part of a short id that
  \<^verbatim>\<open>generateShortId\<close> draws from the clock and \<^verbatim>\<open>Math.random()\<close>.
\<close>

record stamps =
  now_ms :: int
  now_iso :: string
  rnd :: string

definition generateShortId :: "string \<Rightarrow> string \<Rightarrow> string" where
  "generateShortId pre part = pre @ ''_'' @ part"

definition AUTOSAVE_INTERVAL :: int where
  "AUTOSAVE_INTERVAL = 5 * 60 * 1000"

definition INACTIVITY_SAVE_DELAY :: int where
  "INACTIVITY_SAVE_DELAY = 2 * 60 * 1000"

subsection \<open>The state of the process\<close>

text \<open>
  Chat objects live in \<open>heap\<close>; \<open>activeChats\<close> maps a chat id to the address of its
  object, so that a suspended save and the map share one object. \<open>pendingTimers\<close> are the
  timeouts set and neither fired nor cleared (handle, the chat id its callback closes
  over, the delay). \<open>rooms\<close> is room membership (\<^verbatim>\<open>socket.join\<close>). \<open>posts\<close> are the
  request bodies handed to \<^verbatim>\<open>fetch\<close>, \<open>files\<close> the files written, \<open>tasks\<close> the
  suspended async calls.
\<close>

record state =
  heap :: "nat \<Rightarrow> chat"
  nextRef :: nat
  activeChats :: "(string, nat) jsmap"
  connectedAgents :: "(string, agent_conn) jsmap"
  socketOrigins :: "(string, string option) jsmap"
  chatLastActivity :: "(string, int) jsmap"
  chatSaveTimers :: "(string, nat) jsmap"
  pendingTimers :: "(nat \<times> string \<times> int) list"
  nextTimer :: nat
  rooms :: "(string \<times> string) set"
  posts :: "persisted list"
  files :: "((string \<times> int) \<times> persisted) list"
  tasks :: "task list"

subsection \<open>What a handler sends\<close>

text \<open>
  \<open>To_socket\<close> is \<^verbatim>\<open>socket.emit\<close>, \<open>To_room\<close> is \<^verbatim>\<open>io.to(room).emit\<close>,
  \<open>To_room_except room sid\<close> is \<^verbatim>\<open>socket.to(room).emit\<close> (the room without the sender),
  \<open>To_others sid\<close> is \<^verbatim>\<open>socket.broadcast.emit\<close>.
\<close>

datatype target =
    To_socket string
  | To_room string
  | To_room_except string string
  | To_others string

datatype emitted =
    Out_error string
  | Out_identified_as_agent "string option"
  | Out_chat_created string
  | Out_new_chat chat
  | Out_new_message string message
  | Out_user_typing string
  | Out_user_stop_typing string
  | Out_agent_typing string
  | Out_agent_stop_typing string
  | Out_active_chats "chat list"
  | Out_agent_joined string "string option"
  | Out_user_info_updated string "string option" string string
  | Out_missed_messages string "message list"
  | Out_chat_saved string bool "string option"
  | Out_chat_closed string
  | Out_customer_disconnected string "string option"

text \<open>
  Of the console output only the line \<^verbatim>\<open>Chat not found\<close> is kept: it is the one
  observable outcome of the two send handlers on an unknown chat id.
\<close>

datatype effect = Emit target emitted | Log_chat_not_found string

datatype js_error = TypeError


section \<open>Origin check\<close>

text \<open>\<^verbatim>\<open>AGENT_ORIGINS.some((agentOrigin) => origin && origin.startsWith(agentOrigin))\<close>\<close>

definition isAgentOrigin :: "string list \<Rightarrow> string option \<Rightarrow> bool" where
  "isAgentOrigin origins origin =
     list_ex (\<lambda>agentOrigin. case origin of None \<Rightarrow> False
                           | Some e \<Rightarrow> e \<noteq> [] \<and> prefix agentOrigin e) origins"

section \<open>Persistence\<close>

text \<open>
  The synchronous head of \<^verbatim>\<open>saveChatToDatabase(chat)\<close>: \<^verbatim>\<open>lastMessageAt\<close> and
  \<^verbatim>\<open>chatData\<close>, for the chat object at address \<open>r\<close>.
\<close>

definition build_chatData :: "nat \<Rightarrow> chat \<Rightarrow> chatData" where
  "build_chatData r c =
     (let lastMessageAt = (case messages c of [] \<Rightarrow> createdAt c | _ # _ \<Rightarrow> time (last (messages c)))
      in \<lparr> cd_chatroom_id = chatroom_id c,
           agent_id = (if truthy (agent c) then agent c else None),
           user_id = userId c,
           user_name = userName c,
           user_email = userEmail c,
           user_phone = userPhone c,
           user_ip = userIp c,
           socket_id = socketId c,
           status = (if truthy (agent c) then ''closed'' else ''pending''),
           last_message_at = lastMessageAt,
           messages_ref = r \<rparr>)"

definition stringify :: "state \<Rightarrow> chatData \<Rightarrow> persisted" where
  "stringify s cd = (cd, messages (heap s (messages_ref cd)))"

text \<open>
  \<^verbatim>\<open>saveChatToDatabase\<close> up to its first \<^verbatim>\<open>await\<close>. Without \<^verbatim>\<open>CHAT_API_URL\<close> it throws
  inside the \<^verbatim>\<open>try\<close> and goes to the \<^verbatim>\<open>catch\<close> block. Otherwise the request body is
  serialised now (the argument of \<^verbatim>\<open>fetch\<close> is evaluated before the call) and sent.
\<close>

definition save_begin :: "env \<Rightarrow> nat \<Rightarrow> state \<Rightarrow> save_pc \<times> state" where
  "save_begin e r s =
     (let cd = build_chatData r (heap s r)
      in if \<not> truthy (CHAT_API_URL e) then (Await_fs cd, s)
         else (Await_fetch cd, s\<lparr>posts := posts s @ [stringify s cd]\<rparr>))"

text \<open>
  \<^verbatim>\<open>saveChatToDatabase\<close> from one \<^verbatim>\<open>await\<close> to the next, or to its \<^verbatim>\<open>return\<close>. \<open>now\<close>
  is \<^verbatim>\<open>Date.now()\<close> for the file name. \<open>None\<close>: this outcome cannot follow this
  suspension. A file is recorded when \<^verbatim>\<open>writeFile\<close> is fulfilled.
\<close>

fun save_resume :: "save_pc \<Rightarrow> io \<Rightarrow> int \<Rightarrow> state \<Rightarrow> ((save_pc + save_result) \<times> state) option" where
  "save_resume (Await_fetch cd) Io_ok now s = Some (Inl (Await_json cd), s)"
| "save_resume (Await_fetch cd) Io_not_ok now s = Some (Inl (Await_fs cd), s)"
| "save_resume (Await_fetch cd) Io_fail now s = Some (Inl (Await_fs cd), s)"
| "save_resume (Await_json cd) Io_ok now s =
     Some (Inr \<lparr> success = True,
                 sr_chatId = Some (chatroom_id (heap s (messages_ref cd))),
                 fallback = False \<rparr>, s)"
| "save_resume (Await_json cd) Io_fail now s = Some (Inl (Await_fs cd), s)"
| "save_resume (Await_json cd) Io_not_ok now s = None"
| "save_resume (Await_fs cd) Io_ok now s =
     Some (Inl (Await_write cd (chatroom_id (heap s (messages_ref cd)), now) (stringify s cd)), s)"
| "save_resume (Await_fs cd) Io_fail now s =
     Some (Inr \<lparr> success = False, sr_chatId = None, fallback = False \<rparr>, s)"
| "save_resume (Await_fs cd) Io_not_ok now s = None"
| "save_resume (Await_write cd name body) Io_ok now s =
     Some (Inr \<lparr> success = True,
                 sr_chatId = Some (chatroom_id (heap s (messages_ref cd))),
                 fallback = True \<rparr>,
           s\<lparr>files := files s @ [(name, body)]\<rparr>)"
| "save_resume (Await_write cd name body) Io_fail now s =
     Some (Inr \<lparr> success = False, sr_chatId = None, fallback = False \<rparr>, s)"
| "save_resume (Await_write cd name body) Io_not_ok now s = None"

section \<open>Inactivity timer\<close>

definition clearTimeout :: "nat \<Rightarrow> state \<Rightarrow> state" where
  "clearTimeout h s = s\<lparr>pendingTimers := filter (\<lambda>t. fst t \<noteq> h) (pendingTimers s)\<rparr>"

definition scheduleAutoSave :: "string \<Rightarrow> state \<Rightarrow> state" where
  "scheduleAutoSave chatId s =
     (case jm_get (activeChats s) chatId of
        None \<Rightarrow> s
      | Some r \<Rightarrow>
          if \<not> truthy (agent (heap s r)) then s
          else
            let s1 = (case jm_get (chatSaveTimers s) chatId of
                        None \<Rightarrow> s
                      | Some h \<Rightarrow> clearTimeout h s);
                timer = nextTimer s1
            in s1\<lparr>pendingTimers := pendingTimers s1 @ [(timer, chatId, INACTIVITY_SAVE_DELAY)],
                  nextTimer := Suc timer,
                  chatSaveTimers := jm_set (chatSaveTimers s1) chatId timer\<rparr>)"

definition updateChatActivity :: "string \<Rightarrow> int \<Rightarrow> state \<Rightarrow> state" where
  "updateChatActivity chatId now s =
     scheduleAutoSave chatId (s\<lparr>chatLastActivity := jm_set (chatLastActivity s) chatId now\<rparr>)"

text \<open>
  The callback given to \<^verbatim>\<open>setTimeout\<close>, when timer \<open>h\<close> fires (\<open>None\<close>: no such timer
  is pending). It either starts a save and is suspended at its \<^verbatim>\<open>await\<close>, or deletes
  the entry of \<^verbatim>\<open>chatSaveTimers\<close> at once.
\<close>

definition timer_fires :: "env \<Rightarrow> nat \<Rightarrow> state \<Rightarrow> state option" where
  "timer_fires e h s =
     (case map_of (pendingTimers s) h of
        None \<Rightarrow> None
      | Some (chatId, delay) \<Rightarrow>
          let s0 = clearTimeout h s;
              skip = s0\<lparr>chatSaveTimers := jm_delete (chatSaveTimers s0) chatId\<rparr>
          in Some (case jm_get (activeChats s0) chatId of
                     None \<Rightarrow> skip
                   | Some r \<Rightarrow>
                       if messages (heap s0 r) \<noteq> [] \<and> truthy (agent (heap s0 r))
                       then (case save_begin e r s0 of
                               (pc, s1) \<Rightarrow> s1\<lparr>tasks := tasks s1 @ [(K_timer chatId, pc)]\<rparr>)
                       else skip))"

section \<open>Periodic sweep\<close>

text \<open>
  The \<^verbatim>\<open>for ... of activeChats.entries()\<close> loop of the \<^verbatim>\<open>setInterval\<close> callback, from
  iterator position \<open>i\<close>, until it ends or is suspended at \<^verbatim>\<open>await saveChatToDatabase\<close>.
\<close>

function sweep_loop :: "env \<Rightarrow> int \<Rightarrow> nat \<Rightarrow> nat \<Rightarrow> state \<Rightarrow> state" where
  "sweep_loop e now savedCount i s =
     (if length (activeChats s) \<le> i then s
      else case activeChats s ! i of
             None \<Rightarrow> sweep_loop e now savedCount (Suc i) s
           | Some (chatId, r) \<Rightarrow>
               if \<not> truthy (agent (heap s r)) then sweep_loop e now savedCount (Suc i) s
               else
                 let lastActivity = (case jm_get (chatLastActivity s) chatId of
                                       None \<Rightarrow> 0 | Some t \<Rightarrow> t);
                     inactiveTime = now - lastActivity
                 in if messages (heap s r) \<noteq> [] \<and> inactiveTime > AUTOSAVE_INTERVAL
                    then (case save_begin e r s of
                            (pc, s1) \<Rightarrow>
                              s1\<lparr>tasks := tasks s1 @ [(K_sweep now savedCount (Suc i) chatId, pc)]\<rparr>)
                    else sweep_loop e now savedCount (Suc i) s)"
  by pat_completeness auto
termination
  by (relation "measure (\<lambda>(e, now, savedCount, i, s). length (activeChats s) - i)") auto

definition sweep_tick :: "env \<Rightarrow> int \<Rightarrow> state \<Rightarrow> state" where
  "sweep_tick e now s = sweep_loop e now 0 0 s"

declare sweep_loop.simps [simp del]

section \<open>Socket event handlers\<close>

definition on_connection :: "env \<Rightarrow> socket \<Rightarrow> state \<Rightarrow> state \<times> effect list" where
  "on_connection e sock s =
     (s\<lparr>socketOrigins := jm_set (socketOrigins s) (sock_id sock) (sock_origin sock)\<rparr>,
      if isAgentOrigin (AGENT_ORIGINS e) (sock_origin sock)
      then [Emit (To_socket (sock_id sock)) (Out_identified_as_agent (sock_origin sock))]
      else [])"

text \<open>
  The handlers close over \<^verbatim>\<open>isAgentOrigin\<close>, computed once from the handshake origin of
  their socket; the origin of a socket never changes, so it is computed from the socket here.
\<close>

definition on_user_join_chat ::
  "env \<Rightarrow> socket \<Rightarrow> stamps \<Rightarrow> string option \<Rightarrow> string option \<Rightarrow> string option \<Rightarrow> string option
     \<Rightarrow> state \<Rightarrow> state \<times> effect list" where
  "on_user_join_chat e sock st uId uName uEmail uPhone s =
     (if isAgentOrigin (AGENT_ORIGINS e) (sock_origin sock)
      then (s, [Emit (To_socket (sock_id sock))
                  (Out_error ''Agent origins cannot create user chats. Please use join_as_agent instead.'')])
      else
        let chatId = generateShortId ''chat'' (rnd st);
            newChat = \<lparr> chatroom_id = chatId,
                        userId = uId,
                        userName = uName,
                        userEmail = or_else uEmail [],
                        userPhone = or_else uPhone [],
                        userIp = or_else (sock_address sock) ''unknown'',
                        messages = [],
                        createdAt = now_iso st,
                        socketId = sock_id sock,
                        agent = None \<rparr>;
            r = nextRef s
        in (s\<lparr>heap := (heap s)(r := newChat),
              nextRef := Suc r,
              activeChats := jm_set (activeChats s) chatId r,
              rooms := insert (sock_id sock, chatId) (rooms s)\<rparr>,
            [Emit (To_socket (sock_id sock)) (Out_chat_created chatId),
             Emit (To_others (sock_id sock)) (Out_new_chat newChat)]))"

text \<open>\<^verbatim>\<open>chat.messages.push(message)\<close> on the chat object at address \<open>r\<close>.\<close>

definition push_message :: "nat \<Rightarrow> message \<Rightarrow> state \<Rightarrow> state" where
  "push_message r m s = s\<lparr>heap := (heap s)(r := (heap s r)\<lparr>messages := messages (heap s r) @ [m]\<rparr>)\<rparr>"

definition on_user_message ::
  "socket \<Rightarrow> stamps \<Rightarrow> string \<Rightarrow> string option \<Rightarrow> string option \<Rightarrow> state \<Rightarrow> state \<times> effect list" where
  "on_user_message sock st chatId cont sndr s =
     (case jm_get (activeChats s) chatId of
        None \<Rightarrow> (s, [Log_chat_not_found chatId])
      | Some r \<Rightarrow>
          let msg = \<lparr> msg_id = generateShortId ''msg'' (rnd st),
                      content = cont,
                      sender = or_else sndr ''user'',
                      senderName = userName (heap s r),
                      time = now_iso st \<rparr>;
              s1 = push_message r msg s;
              out = [Emit (To_room chatId) (Out_new_message chatId msg)]
          in if truthy (agent (heap s1 r))
             then (updateChatActivity chatId (now_ms st) s1, out)
             else (s1, out))"

definition on_user_typing :: "socket \<Rightarrow> string \<Rightarrow> state \<Rightarrow> state \<times> effect list" where
  "on_user_typing sock chatId s = (s, [Emit (To_room_except chatId (sock_id sock)) (Out_user_typing chatId)])"

definition on_user_stop_typing :: "socket \<Rightarrow> string \<Rightarrow> state \<Rightarrow> state \<times> effect list" where
  "on_user_stop_typing sock chatId s =
     (s, [Emit (To_room_except chatId (sock_id sock)) (Out_user_stop_typing chatId)])"

definition on_join_as_agent ::
  "env \<Rightarrow> socket \<Rightarrow> stamps \<Rightarrow> string option \<Rightarrow> string option \<Rightarrow> state \<Rightarrow> state \<times> effect list" where
  "on_join_as_agent e sock st aName aId s =
     (let socketOrigin = (case jm_get (socketOrigins s) (sock_id sock) of None \<Rightarrow> None | Some v \<Rightarrow> v)
      in if \<not> isAgentOrigin (AGENT_ORIGINS e) socketOrigin
         then (s, [Emit (To_socket (sock_id sock))
                     (Out_error ''Unauthorized: Agent connections must come from authorized domains'')])
         else (s\<lparr>connectedAgents :=
                    jm_set (connectedAgents s) (sock_id sock)
                      \<lparr> agentId = aId,
                        agentName = aName,
                        ac_socketId = sock_id sock,
                        ac_origin = socketOrigin,
                        connectedAt = now_iso st \<rparr>\<rparr>,
               [Emit (To_socket (sock_id sock))
                  (Out_active_chats (map (heap s) (jm_values (activeChats s))))]))"

text \<open>
  The \<^verbatim>\<open>message\<close> field of a \<^verbatim>\<open>message_from_agent\<close> payload. The handler reads
  \<^verbatim>\<open>message.content\<close> first of all (in its log line), which throws when the field is
  missing.
\<close>

record agent_message =
  am_content :: "string option"
  am_time :: "string option"

definition on_message_from_agent ::
  "socket \<Rightarrow> stamps \<Rightarrow> string \<Rightarrow> agent_message option \<Rightarrow> string option \<Rightarrow> state
     \<Rightarrow> js_error + state \<times> effect list" where
  "on_message_from_agent sock st chatId msg aName s =
     (case msg of
        None \<Rightarrow> Inl TypeError
      | Some m \<Rightarrow>
          Inr (case jm_get (activeChats s) chatId of
                 None \<Rightarrow> (s, [Log_chat_not_found chatId])
               | Some r \<Rightarrow>
                   let messageData = \<lparr> msg_id = generateShortId ''msg'' (rnd st),
                                       content = am_content m,
                                       sender = ''agent'',
                                       senderName = aName,
                                       time = or_else (am_time m) (now_iso st) \<rparr>;
                       s1 = push_message r messageData s;
                       unassigned = \<not> truthy (agent (heap s1 r));
                       s2 = (if unassigned
                             then s1\<lparr>heap := (heap s1)(r := (heap s1 r)\<lparr>agent := aName\<rparr>)\<rparr>
                             else s1);
                       joined = (if unassigned
                                 then [Emit (To_room_except chatId (sock_id sock))
                                         (Out_agent_joined chatId aName)]
                                 else [])
                   in (updateChatActivity chatId (now_ms st) s2,
                       joined @ [Emit (To_room chatId) (Out_new_message chatId messageData)])))"

definition on_agent_typing :: "socket \<Rightarrow> string \<Rightarrow> state \<Rightarrow> state \<times> effect list" where
  "on_agent_typing sock chatId s = (s, [Emit (To_room_except chatId (sock_id sock)) (Out_agent_typing chatId)])"

definition on_agent_stop_typing :: "socket \<Rightarrow> string \<Rightarrow> state \<Rightarrow> state \<times> effect list" where
  "on_agent_stop_typing sock chatId s =
     (s, [Emit (To_room_except chatId (sock_id sock)) (Out_agent_stop_typing chatId)])"

definition on_update_user_info ::
  "socket \<Rightarrow> string \<Rightarrow> string option \<Rightarrow> string option \<Rightarrow> string option \<Rightarrow> state \<Rightarrow> state \<times> effect list" where
  "on_update_user_info sock chatId uName uEmail uPhone s =
     (case jm_get (activeChats s) chatId of
        None \<Rightarrow> (s, [])
      | Some r \<Rightarrow>
          let c = heap s r;
              c' = c\<lparr>userName := or_opt uName (userName c),
                     userEmail := or_else uEmail (userEmail c),
                     userPhone := or_else uPhone (userPhone c)\<rparr>
          in (s\<lparr>heap := (heap s)(r := c')\<rparr>,
              [Emit (To_others (sock_id sock))
                 (Out_user_info_updated chatId (userName c') (userEmail c') (userPhone c'))]))"

text \<open>\<^verbatim>\<open>Array.prototype.findIndex\<close>: the first index that satisfies \<open>P\<close>, or -1.\<close>

fun findIndex :: "('a \<Rightarrow> bool) \<Rightarrow> 'a list \<Rightarrow> int" where
  "findIndex P [] = - 1"
| "findIndex P (x # xs) =
     (if P x then 0 else (let i = findIndex P xs in if i \<ge> 0 then i + 1 else - 1))"

text \<open>\<^verbatim>\<open>lastIndex >= 0 ? chat.messages.slice(lastIndex + 1) : []\<close>\<close>

definition missedMessages :: "message list \<Rightarrow> string option \<Rightarrow> message list" where
  "missedMessages ms lastMessageId =
     (let lastIndex = findIndex (\<lambda>m. Some (msg_id m) = lastMessageId) ms
      in if lastIndex \<ge> 0 then drop (nat (lastIndex + 1)) ms else [])"

definition on_request_missed_messages ::
  "socket \<Rightarrow> string \<Rightarrow> string option \<Rightarrow> state \<Rightarrow> state \<times> effect list" where
  "on_request_missed_messages sock chatId lastMessageId s =
     (case jm_get (activeChats s) chatId of
        None \<Rightarrow> (s, [])
      | Some r \<Rightarrow>
          (s, [Emit (To_socket (sock_id sock))
                 (Out_missed_messages chatId (missedMessages (messages (heap s r)) lastMessageId))]))"

text \<open>
  \<^verbatim>\<open>save_chat\<close> and \<^verbatim>\<open>close_chat\<close> up to their \<^verbatim>\<open>await saveChatToDatabase(chat)\<close>; what
  follows the await is \<open>task_done\<close>.
\<close>

definition on_save_chat :: "env \<Rightarrow> socket \<Rightarrow> string \<Rightarrow> state \<Rightarrow> state \<times> effect list" where
  "on_save_chat e sock chatId s =
     (case jm_get (activeChats s) chatId of
        None \<Rightarrow> (s, [Emit (To_socket (sock_id sock)) (Out_chat_saved chatId False (Some ''Chat not found''))])
      | Some r \<Rightarrow>
          (case save_begin e r s of
             (pc, s1) \<Rightarrow> (s1\<lparr>tasks := tasks s1 @ [(K_save_chat (sock_id sock) chatId, pc)]\<rparr>, [])))"

definition on_close_chat :: "env \<Rightarrow> string \<Rightarrow> state \<Rightarrow> state \<times> effect list" where
  "on_close_chat e chatId s =
     (case jm_get (activeChats s) chatId of
        None \<Rightarrow> (s, [])
      | Some r \<Rightarrow>
          (case save_begin e r s of
             (pc, s1) \<Rightarrow> (s1\<lparr>tasks := tasks s1 @ [(K_close_chat chatId, pc)]\<rparr>, [])))"

text \<open>
  The \<^verbatim>\<open>disconnect\<close> handler. Its last loop tells the other sockets of every chat the
  socket had opened.
\<close>

definition customer_disconnected :: "string \<Rightarrow> state \<Rightarrow> effect list" where
  "customer_disconnected sid s =
     concat (map (\<lambda>entry. case entry of
                    (chatId, r) \<Rightarrow>
                      if socketId (heap s r) = sid
                      then [Emit (To_others sid) (Out_customer_disconnected chatId (userName (heap s r)))]
                      else [])
               (List.map_filter (\<lambda>e. e) (activeChats s)))"

text \<open>
  Its first loop, for a socket registered as agent, from iterator position \<open>i\<close> until it is
  suspended at \<^verbatim>\<open>await saveChatToDatabase(chat)\<close> or ends; then the agent is removed and
  the last loop runs.
\<close>

function disconnect_loop :: "env \<Rightarrow> string \<Rightarrow> string option \<Rightarrow> nat \<Rightarrow> state \<Rightarrow> state \<times> effect list" where
  "disconnect_loop e sid aName i s =
     (if length (activeChats s) \<le> i
      then (let s1 = s\<lparr>connectedAgents := jm_delete (connectedAgents s) sid\<rparr>
            in (s1, customer_disconnected sid s1))
      else case activeChats s ! i of
             None \<Rightarrow> disconnect_loop e sid aName (Suc i) s
           | Some (chatId, r) \<Rightarrow>
               if agent (heap s r) = aName \<and> messages (heap s r) \<noteq> []
               then (case save_begin e r s of
                       (pc, s1) \<Rightarrow> (s1\<lparr>tasks := tasks s1 @ [(K_disconnect sid aName (Suc i), pc)]\<rparr>, []))
               else disconnect_loop e sid aName (Suc i) s)"
  by pat_completeness auto
termination
  by (relation "measure (\<lambda>(e, sid, aName, i, s). length (activeChats s) - i)") auto

declare disconnect_loop.simps [simp del]

text \<open>A socket that disconnects has left its rooms (Socket.IO does that).\<close>

definition on_disconnect :: "env \<Rightarrow> socket \<Rightarrow> state \<Rightarrow> state \<times> effect list" where
  "on_disconnect e sock s =
     (let s0 = s\<lparr>socketOrigins := jm_delete (socketOrigins s) (sock_id sock),
                  rooms := Set.filter (\<lambda>p. fst p \<noteq> sock_id sock) (rooms s)\<rparr>
      in case jm_get (connectedAgents s0) (sock_id sock) of
           None \<Rightarrow> (s0, customer_disconnected (sock_id sock) s0)
         | Some a \<Rightarrow> disconnect_loop e (sock_id sock) (agentName a) 0 s0)"

text \<open>The code after \<^verbatim>\<open>await saveChatToDatabase(chat)\<close> in each caller.\<close>

fun task_done :: "env \<Rightarrow> task_kind \<Rightarrow> save_result \<Rightarrow> state \<Rightarrow> state \<times> effect list" where
  "task_done e (K_save_chat sid chatId) res s =
     (s, [Emit (To_socket sid) (Out_chat_saved chatId (success res) None)])"
| "task_done e (K_close_chat chatId) res s =
     (let s1 = (case jm_get (chatSaveTimers s) chatId of
                  None \<Rightarrow> s
                | Some h \<Rightarrow> (clearTimeout h s)\<lparr>chatSaveTimers := jm_delete (chatSaveTimers s) chatId\<rparr>)
      in (s1\<lparr>activeChats := jm_delete (activeChats s1) chatId,
             chatLastActivity := jm_delete (chatLastActivity s1) chatId\<rparr>,
          [Emit (To_room chatId) (Out_chat_closed chatId)]))"
| "task_done e (K_timer chatId) res s =
     (s\<lparr>chatSaveTimers := jm_delete (chatSaveTimers s) chatId\<rparr>, [])"
| "task_done e (K_sweep now savedCount i chatId) res s =
     (sweep_loop e now (Suc savedCount) i
        (s\<lparr>chatLastActivity := jm_set (chatLastActivity s) chatId now\<rparr>), [])"
| "task_done e (K_disconnect sid aName i) res s = disconnect_loop e sid aName i s"

text \<open>
  Task \<open>n\<close> is resumed with the outcome of the operation it awaits (\<open>None\<close>: no such
  task, or the outcome cannot follow its suspension).
\<close>

definition resume :: "env \<Rightarrow> nat \<Rightarrow> io \<Rightarrow> int \<Rightarrow> state \<Rightarrow> (state \<times> effect list) option" where
  "resume e n outcome now s =
     (if length (tasks s) \<le> n then None
      else case tasks s ! n of
             (kind, pc) \<Rightarrow>
               (case save_resume pc outcome now s of
                  None \<Rightarrow> None
                | Some (Inl pc', s1) \<Rightarrow> Some (s1\<lparr>tasks := (tasks s1)[n := (kind, pc')]\<rparr>, [])
                | Some (Inr res, s1) \<Rightarrow>
                    Some (task_done e kind res (s1\<lparr>tasks := take n (tasks s1) @ drop (Suc n) (tasks s1)\<rparr>))))"

subsection \<open>Inbound events\<close>

datatype event =
    User_join_chat "string option" "string option" "string option" "string option"
  | User_message string "string option" "string option"
  | User_typing string
  | User_stop_typing string
  | Join_as_agent "string option" "string option"
  | Message_from_agent string "agent_message option" "string option"
  | Agent_typing string
  | Agent_stop_typing string
  | Update_user_info string "string option" "string option" "string option"
  | Request_missed_messages string "string option"
  | Save_chat string
  | Close_chat string

fun handle :: "env \<Rightarrow> socket \<Rightarrow> stamps \<Rightarrow> event \<Rightarrow> state \<Rightarrow> js_error + state \<times> effect list" where
  "handle e sock st (User_join_chat uId uName uEmail uPhone) s =
     Inr (on_user_join_chat e sock st uId uName uEmail uPhone s)"
| "handle e sock st (User_message chatId cont sndr) s = Inr (on_user_message sock st chatId cont sndr s)"
| "handle e sock st (User_typing chatId) s = Inr (on_user_typing sock chatId s)"
| "handle e sock st (User_stop_typing chatId) s = Inr (on_user_stop_typing sock chatId s)"
| "handle e sock st (Join_as_agent aName aId) s = Inr (on_join_as_agent e sock st aName aId s)"
| "handle e sock st (Message_from_agent chatId msg aName) s =
     on_message_from_agent sock st chatId msg aName s"
| "handle e sock st (Agent_typing chatId) s = Inr (on_agent_typing sock chatId s)"
| "handle e sock st (Agent_stop_typing chatId) s = Inr (on_agent_stop_typing sock chatId s)"
| "handle e sock st (Update_user_info chatId uName uEmail uPhone) s =
     Inr (on_update_user_info sock chatId uName uEmail uPhone s)"
| "handle e sock st (Request_missed_messages chatId lastMessageId) s =
     Inr (on_request_missed_messages sock chatId lastMessageId s)"
| "handle e sock st (Save_chat chatId) s = Inr (on_save_chat e sock chatId s)"
| "handle e sock st (Close_chat chatId) s = Inr (on_close_chat e chatId s)"

text \<open>The chat id an event's payload refers to.\<close>

fun event_chatId :: "event \<Rightarrow> string option" where
  "event_chatId (User_join_chat uId uName uEmail uPhone) = None"
| "event_chatId (User_message chatId cont sndr) = Some chatId"
| "event_chatId (User_typing chatId) = Some chatId"
| "event_chatId (User_stop_typing chatId) = Some chatId"
| "event_chatId (Join_as_agent aName aId) = None"
| "event_chatId (Message_from_agent chatId msg aName) = Some chatId"
| "event_chatId (Agent_typing chatId) = Some chatId"
| "event_chatId (Agent_stop_typing chatId) = Some chatId"
| "event_chatId (Update_user_info chatId uName uEmail uPhone) = Some chatId"
| "event_chatId (Request_missed_messages chatId lastMessageId) = Some chatId"
| "event_chatId (Save_chat chatId) = Some chatId"
| "event_chatId (Close_chat chatId) = Some chatId"

section \<open>Example configuration and states\<close>

text \<open>
  The default configuration (no \<^verbatim>\<open>AGENT_ORIGINS\<close> and no \<^verbatim>\<open>CHAT_API_URL\<close> in the
  environment), and one with a remote store configured.
\<close>

definition env_default :: env where
  "env_default = \<lparr> AGENT_ORIGINS = [''https://fantickets.cloud/design/agent-panel''],
                   CHAT_API_URL = None \<rparr>"

definition env_remote :: env where
  "env_remote = \<lparr> AGENT_ORIGINS = [''https://fantickets.cloud/design/agent-panel''],
                  CHAT_API_URL = Some ''https://api.test/chats'' \<rparr>"

definition sock_customer :: socket where
  "sock_customer = \<lparr> sock_id = ''c1'', sock_origin = Some ''http://localhost:3000'',
                     sock_address = Some ''10.0.0.7'' \<rparr>"

definition sock_panel :: socket where
  "sock_panel = \<lparr> sock_id = ''a1'',
                  sock_origin = Some ''https://fantickets.cloud/design/agent-panel/inbox'',
                  sock_address = Some ''10.0.0.9'' \<rparr>"

definition blank_chat :: chat where
  "blank_chat = \<lparr> chatroom_id = [], userId = None, userName = None, userEmail = [],
                  userPhone = [], userIp = [], messages = [], createdAt = [],
                  socketId = [], agent = None \<rparr>"

text \<open>The process at start: all maps empty.\<close>

definition init :: state where
  "init = \<lparr> heap = (\<lambda>r. blank_chat), nextRef = 0, activeChats = [], connectedAgents = [],
            socketOrigins = [], chatLastActivity = [], chatSaveTimers = [],
            pendingTimers = [], nextTimer = 0, rooms = {}, posts = [], files = [],
            tasks = [] \<rparr>"

definition at :: "int \<Rightarrow> string \<Rightarrow> string \<Rightarrow> stamps" where
  "at ms stamp part = \<lparr> now_ms = ms, now_iso = stamp, rnd = part \<rparr>"

text \<open>
  Both sockets connect and the customer opens chat \<open>chat_k1\<close> (object at address 0).
\<close>

definition s_open :: state where
  "s_open =
     fst (on_user_join_chat env_default sock_customer (at 1000 ''T1'' ''k1'')
            (Some ''u1'') (Some ''Alice'') None None
            (fst (on_connection env_default sock_panel
                    (fst (on_connection env_default sock_customer init)))))"

text \<open>Then the customer says hello.\<close>

definition s_hello :: state where
  "s_hello = fst (on_user_message sock_customer (at 2000 ''T2'' ''m1'') ''chat_k1'' (Some ''hello'') None s_open)"

text \<open>Then two more customer messages.\<close>

definition s_three :: state where
  "s_three =
     fst (on_user_message sock_customer (at 2200 ''T4'' ''m3'') ''chat_k1'' (Some ''there?'') None
            (fst (on_user_message sock_customer (at 2100 ''T3'' ''m2'') ''chat_k1'' (Some ''anyone'') None
                    s_hello)))"


text \<open>
  In \<open>s_hello\<close>, two \<^verbatim>\<open>message_from_agent\<close> events from the agent panel: the first with an
  empty \<^verbatim>\<open>agentName\<close>, the second with \<^verbatim>\<open>agentName\<close> Bob.
\<close>

definition agent_send_1 :: "js_error + state \<times> effect list" where
  "agent_send_1 =
     on_message_from_agent sock_panel (at 3000 ''T5'' ''m5'') ''chat_k1''
       (Some \<lparr> am_content = Some ''hi'', am_time = None \<rparr>) (Some []) s_hello"

definition agent_send_2 :: "js_error + state \<times> effect list" where
  "agent_send_2 =
     on_message_from_agent sock_panel (at 4000 ''T6'' ''m6'') ''chat_k1''
       (Some \<lparr> am_content = Some ''how can I help'', am_time = None \<rparr>) (Some ''Bob'')
       (fst (projr agent_send_1))"

text \<open>
  In \<open>s_hello\<close>, the panel socket joins as agent Ann and replies (clock at 3000 ms): the chat
  gets its agent, its last activity is recorded and the inactivity timer 0 is armed.
\<close>

definition s_agent :: state where
  "s_agent =
     fst (projr (on_message_from_agent sock_panel (at 3000 ''T5'' ''m5'') ''chat_k1''
                   (Some \<lparr> am_content = Some ''hi Alice'', am_time = None \<rparr>) (Some ''Ann'')
                   (fst (on_join_as_agent env_default sock_panel (at 2500 ''T4'' ''j1'')
                           (Some ''Ann'') (Some ''ag1'') s_hello))))"

text \<open>
  Timer 0 fires, its save goes to the fallback file (no remote store configured) and
  completes (clock at 123500 ms). The save does not touch the recorded last activity.
\<close>

definition s_timer_saved :: state where
  "s_timer_saved =
     fst (the (resume env_default 0 Io_ok 123500
       (fst (the (resume env_default 0 Io_ok 123500
          (the (timer_fires env_default 0 s_agent)))))))"

text \<open>An unassigned chat with a timer pending under its id.\<close>

definition s_stray_timer :: state where
  "s_stray_timer = s_hello\<lparr>pendingTimers := [(0, ''chat_k1'', INACTIVITY_SAVE_DELAY)]\<rparr>"

text \<open>
  A manual save of \<open>chat_k1\<close> in \<open>s_agent\<close>, with no remote store configured: the
  \<^verbatim>\<open>save_chat\<close> handler calls \<^verbatim>\<open>saveChatToDatabase\<close>, which is suspended in its \<^verbatim>\<open>catch\<close>
  block; the customer sends one more message; then \<^verbatim>\<open>mkdir\<close> returns (clock at 6500 ms) and
  \<^verbatim>\<open>writeFile\<close> returns.
\<close>

definition s_save_begun :: state where
  "s_save_begun = fst (on_save_chat env_default sock_panel ''chat_k1'' s_agent)"

definition s_save_late_message :: state where
  "s_save_late_message =
     fst (on_user_message sock_customer (at 6000 ''T8'' ''m8'') ''chat_k1'' (Some ''one more thing'') None
            s_save_begun)"

definition s_save_done :: state where
  "s_save_done =
     fst (the (resume env_default 0 Io_ok 6600
       (fst (the (resume env_default 0 Io_ok 6500 s_save_late_message)))))"

text \<open>
  The same with a remote store configured: the request is sent, the customer sends one more
  message, the store answers with a status that is not ok, and the save falls back to
  the file.
\<close>

definition s_post_begun :: state where
  "s_post_begun = fst (on_save_chat env_remote sock_panel ''chat_k1'' s_agent)"

definition s_post_late_message :: state where
  "s_post_late_message =
     fst (on_user_message sock_customer (at 6000 ''T8'' ''m8'') ''chat_k1'' (Some ''one more thing'') None
            s_post_begun)"

definition s_post_fell_back :: state where
  "s_post_fell_back =
     fst (the (resume env_remote 0 Io_ok 6600
       (fst (the (resume env_remote 0 Io_ok 6500
          (fst (the (resume env_remote 0 Io_not_ok 6400 s_post_late_message))))))))"

text \<open>
  For stating invariants of a suspended save: the \<^verbatim>\<open>chatData\<close> object it holds, and that
  the text it has handed to \<^verbatim>\<open>writeFile\<close> is a serialisation of that object.
\<close>

fun pc_chatData :: "save_pc \<Rightarrow> chatData" where
  "pc_chatData (Await_fetch cd) = cd"
| "pc_chatData (Await_json cd) = cd"
| "pc_chatData (Await_fs cd) = cd"
| "pc_chatData (Await_write cd name body) = cd"

fun pc_consistent :: "save_pc \<Rightarrow> bool" where
  "pc_consistent (Await_write cd name body) = (fst body = cd)"
| "pc_consistent pc = True"

text \<open>
  An event whose payload has the fields its handler dereferences. The one handler that
  dereferences a field is \<^verbatim>\<open>message_from_agent\<close>, which reads \<^verbatim>\<open>message.content\<close>.
\<close>

fun payload_complete :: "event \<Rightarrow> bool" where
  "payload_complete (Message_from_agent chatId None aName) = False"
| "payload_complete ev = True"

text \<open>
  For stating how the sweep goes through the map: entry \<open>j\<close> of \<^verbatim>\<open>activeChats\<close> passes the
  tests of the loop body (a chat with an agent, with messages, inactive for more than
  \<^verbatim>\<open>AUTOSAVE_INTERVAL\<close>) in state \<open>s\<close>, for a sweep whose \<^verbatim>\<open>now\<close> is \<open>now\<close>.
\<close>

definition sweep_overdue :: "int \<Rightarrow> state \<Rightarrow> nat \<Rightarrow> bool" where
  "sweep_overdue now s j =
     (case activeChats s ! j of
        None \<Rightarrow> False
      | Some (chatId, r) \<Rightarrow>
          truthy (agent (heap s r)) \<and> messages (heap s r) \<noteq> [] \<and>
          now - (case jm_get (chatLastActivity s) chatId of None \<Rightarrow> 0 | Some t \<Rightarrow> t)
            > AUTOSAVE_INTERVAL)"

text \<open>
  A registry with a removed entry, a chat without agent and a chat with an agent: the
  customer opens \<open>chat_k0\<close> and it is closed (the save of the close goes to the fallback
  file); the customer opens \<open>chat_k2\<close> and writes; the customer opens \<open>chat_k1\<close> and writes,
  and agent Ann replies (clock at 3000 ms).
\<close>

definition s_closed_one :: state where
  "s_closed_one =
     fst (the (resume env_default 0 Io_ok 600
       (fst (the (resume env_default 0 Io_ok 500
          (fst (on_close_chat env_default ''chat_k0''
             (fst (on_user_join_chat env_default sock_customer (at 100 ''T0'' ''k0'')
                     (Some ''u1'') (Some ''Alice'') None None
                     (fst (on_connection env_default sock_panel
                             (fst (on_connection env_default sock_customer init)))))))))))))"

definition s_mixed :: state where
  "s_mixed =
     fst (projr (on_message_from_agent sock_panel (at 3000 ''T5'' ''m5'') ''chat_k1''
                   (Some \<lparr> am_content = Some ''hi Alice'', am_time = None \<rparr>) (Some ''Ann'')
       (fst (on_user_message sock_customer (at 2000 ''T4'' ''m4'') ''chat_k1'' (Some ''hello'') None
          (fst (on_user_join_chat env_default sock_customer (at 1500 ''T3'' ''k1'')
                  (Some ''u1'') (Some ''Alice'') None None
             (fst (on_user_message sock_customer (at 1200 ''T2'' ''m2'') ''chat_k2'' (Some ''ping'') None
                (fst (on_user_join_chat env_default sock_customer (at 1000 ''T1'' ''k2'')
                        (Some ''u1'') (Some ''Alice'') None None s_closed_one))))))))))"

text \<open>
  In \<open>s_hello\<close> (one chat, no agent, one message), the panel socket joins as agent without
  an \<^verbatim>\<open>agentName\<close> and disconnects; the save started by the \<^verbatim>\<open>disconnect\<close> handler goes to
  the fallback file (clock at 8000 ms).
\<close>

definition s_nameless_agent :: state where
  "s_nameless_agent =
     fst (on_join_as_agent env_default sock_panel (at 2500 ''T4'' ''j1'') None (Some ''ag1'') s_hello)"

definition s_agent_left :: state where
  "s_agent_left = fst (on_disconnect env_default sock_panel s_nameless_agent)"

definition s_agent_left_saved :: state where
  "s_agent_left_saved =
     fst (the (resume env_default 0 Io_ok 8100
       (fst (the (resume env_default 0 Io_ok 8000 s_agent_left)))))"

text \<open>
  A manual save of \<open>chat_k1\<close> in \<open>s_open\<close>, where it has no message yet; the customer's
  first message arrives while the save is suspended; then the file is written.
\<close>

definition s_empty_save_done :: state where
  "s_empty_save_done =
     fst (the (resume env_default 0 Io_ok 1600
       (fst (the (resume env_default 0 Io_ok 1500
          (fst (on_user_message sock_customer (at 1400 ''T2'' ''m1'') ''chat_k1'' (Some ''hello'') None
                  (fst (on_save_chat env_default sock_panel ''chat_k1'' s_open)))))))))"

text \<open>
  A run of the sweep that nothing interrupts: after the tick, task \<open>n\<close> (the sweep's own)
  is resumed with a fulfilled outcome at each clock reading of the list, as long as it is
  there. No other handler runs in between.
\<close>

fun sweep_resumed :: "env \<Rightarrow> nat \<Rightarrow> int list \<Rightarrow> state \<Rightarrow> state" where
  "sweep_resumed e n [] s = s"
| "sweep_resumed e n (t # clocks) s =
     (case resume e n Io_ok t s of
        None \<Rightarrow> s
      | Some (s', out) \<Rightarrow> sweep_resumed e n clocks s')"

text \<open>
  For stating what such a run persists: the entries from position \<open>i\<close> on that pass the
  tests of the loop body, in the order of the map; and that no two entries of a map have
  the same key (which \<^verbatim>\<open>set\<close> and \<^verbatim>\<open>delete\<close> keep true).
\<close>

definition overdue_entries :: "int \<Rightarrow> state \<Rightarrow> nat \<Rightarrow> (string \<times> nat) list" where
  "overdue_entries now s i =
     List.map_filter (\<lambda>j. if sweep_overdue now s j then activeChats s ! j else None)
       [i..<length (activeChats s)]"

definition unique_keys :: "('k, 'v) jsmap \<Rightarrow> bool" where
  "unique_keys m =
     list_all (\<lambda>k. list_all (\<lambda>j. case (m ! j, m ! k) of
                                     (Some (a, v), Some (b, w)) \<Rightarrow> a \<noteq> b
                                   | _ \<Rightarrow> True) [0..<k])
       [0..<length m]"

text \<open>
  What a save in which every awaited operation is fulfilled adds to the state: the request
  sent to the store when one is configured, the fallback file (named at clock reading
  \<open>t\<close>) when none is.
\<close>

definition after_save :: "env \<Rightarrow> nat \<Rightarrow> int \<Rightarrow> state \<Rightarrow> state" where
  "after_save e r t s =
     (if truthy (CHAT_API_URL e)
      then s\<lparr>posts := posts s @ [(build_chatData r (heap s r), messages (heap s r))]\<rparr>
      else s\<lparr>files := files s @ [((chatroom_id (heap s r), t),
                                    (build_chatData r (heap s r), messages (heap s r)))]\<rparr>)"

section \<open>Basic facts\<close>

lemmas example_defs =
  env_default_def env_remote_def sock_customer_def sock_panel_def blank_chat_def init_def at_def

lemmas handler_defs =
  on_connection_def on_user_join_chat_def on_user_message_def on_join_as_agent_def
  on_message_from_agent_def on_update_user_info_def on_request_missed_messages_def
  on_save_chat_def on_close_chat_def on_user_typing_def on_user_stop_typing_def
  on_agent_typing_def on_agent_stop_typing_def
  push_message_def updateChatActivity_def scheduleAutoSave_def clearTimeout_def
  save_begin_def build_chatData_def stringify_def resume_def timer_fires_def
  isAgentOrigin_def generateShortId_def truthy_def or_else_def or_opt_def
  INACTIVITY_SAVE_DELAY_def AUTOSAVE_INTERVAL_def

lemma jm_get_set_same: "jm_get (jm_set m k v) k = Some v"
  by (induction m k v rule: jm_set.induct) auto

lemma jm_get_set_other: "k' \<noteq> k \<Longrightarrow> jm_get (jm_set m k v) k' = jm_get m k'"
  by (induction m k v rule: jm_set.induct) auto

lemma updateChatActivity_frame:
  "heap (updateChatActivity c n s) = heap s"
  "nextRef (updateChatActivity c n s) = nextRef s"
  "activeChats (updateChatActivity c n s) = activeChats s"
  "connectedAgents (updateChatActivity c n s) = connectedAgents s"
  "socketOrigins (updateChatActivity c n s) = socketOrigins s"
  "rooms (updateChatActivity c n s) = rooms s"
  "posts (updateChatActivity c n s) = posts s"
  "files (updateChatActivity c n s) = files s"
  "tasks (updateChatActivity c n s) = tasks s"
  by (simp_all add: updateChatActivity_def scheduleAutoSave_def clearTimeout_def Let_def
        split: option.splits)

lemma on_connection_records_origin:
  "jm_get (socketOrigins (fst (on_connection e sock s))) (sock_id sock) = Some (sock_origin sock)"
  by (simp add: on_connection_def jm_get_set_same)

lemma s_open_eval:
  "s_open = init\<lparr> heap := (\<lambda>r. blank_chat)(0 := \<lparr> chatroom_id = ''chat_k1'', userId = Some ''u1'',
                 userName = Some ''Alice'', userEmail = [], userPhone = [], userIp = ''10.0.0.7'',
                 messages = [], createdAt = ''T1'', socketId = ''c1'', agent = None \<rparr>),
               nextRef := 1,
               activeChats := [Some (''chat_k1'', 0)],
               socketOrigins := [Some (''c1'', Some ''http://localhost:3000''),
                                 Some (''a1'', Some ''https://fantickets.cloud/design/agent-panel/inbox'')],
               rooms := {(''c1'', ''chat_k1'')} \<rparr>"
  by (simp add: s_open_def handler_defs example_defs Let_def)

lemma s_hello_eval:
  "s_hello = s_open\<lparr> heap := (heap s_open)(0 := (heap s_open 0)\<lparr> messages :=
       [\<lparr> msg_id = ''msg_m1'', content = Some ''hello'', sender = ''user'',
           senderName = Some ''Alice'', time = ''T2'' \<rparr>] \<rparr>) \<rparr>"
  by (simp add: s_hello_def s_open_eval handler_defs example_defs Let_def)



lemma sock_ids: "sock_id sock_customer = ''c1''" "sock_id sock_panel = ''a1''"
  by (simp_all add: example_defs)

section \<open>Missed-message replay\<close>

lemma findIndex_none: "\<forall>x \<in> set xs. \<not> P x \<Longrightarrow> findIndex P xs = - 1"
  by (induction xs) auto

lemma findIndex_first:
  "\<forall>x \<in> set xs. \<not> P x \<Longrightarrow> P y \<Longrightarrow> findIndex P (xs @ y # ys) = int (length xs)"
  by (induction xs) (auto simp: Let_def)

text \<open>In general: the reply is what follows the first message that carries the id.\<close>

lemma missedMessages_after_first:
  "\<forall>x \<in> set xs. msg_id x \<noteq> msg_id m \<Longrightarrow> missedMessages (xs @ m # ys) (Some (msg_id m)) = ys"
  using findIndex_first [of xs "\<lambda>x. Some (msg_id x) = Some (msg_id m)" m ys]
  by (simp add: missedMessages_def Let_def nat_add_distrib)

lemma missedMessages_absent:
  "\<forall>x \<in> set ms. Some (msg_id x) \<noteq> lastMessageId \<Longrightarrow> missedMessages ms lastMessageId = []"
  using findIndex_none [of ms "\<lambda>x. Some (msg_id x) = lastMessageId"]
  by (simp add: missedMessages_def Let_def)

text \<open>
  Claim C8. Missed-message replay: for a session whose message sequence is \<open>[m1, m2, m3]\<close>, a
  \<^verbatim>\<open>request_missed_messages\<close> with \<open>lastMessageId = m1.id\<close> is answered with exactly
  \<open>[m2, m3]\<close>; for a \<open>lastMessageId\<close> that no message of the session carries (a missing one
  included) the answer is the empty sequence. The state is not changed.
\<close>

theorem C8_missed_messages_replay:
  assumes "jm_get (activeChats s) chatId = Some r"
  shows "(messages (heap s r) = [m1, m2, m3] \<longrightarrow>
            on_request_missed_messages sock chatId (Some (msg_id m1)) s =
              (s, [Emit (To_socket (sock_id sock)) (Out_missed_messages chatId [m2, m3])])) \<and>
         ((\<forall>x \<in> set (messages (heap s r)). Some (msg_id x) \<noteq> lastMessageId) \<longrightarrow>
            on_request_missed_messages sock chatId lastMessageId s =
              (s, [Emit (To_socket (sock_id sock)) (Out_missed_messages chatId [])]))"
  using assms missedMessages_after_first [of "[]" m1 "[m2, m3]"]
    missedMessages_absent [of "messages (heap s r)" lastMessageId]
  by (simp add: on_request_missed_messages_def)

lemma s_three_chat:
  "jm_get (activeChats s_three) ''chat_k1'' = Some 0"
  "messages (heap s_three 0) =
     [\<lparr> msg_id = ''msg_m1'', content = Some ''hello'', sender = ''user'',
         senderName = Some ''Alice'', time = ''T2'' \<rparr>,
      \<lparr> msg_id = ''msg_m2'', content = Some ''anyone'', sender = ''user'',
         senderName = Some ''Alice'', time = ''T3'' \<rparr>,
      \<lparr> msg_id = ''msg_m3'', content = Some ''there?'', sender = ''user'',
         senderName = Some ''Alice'', time = ''T4'' \<rparr>]"
  by (simp_all add: s_three_def s_hello_eval s_open_eval handler_defs example_defs Let_def)

theorem C8_missed_messages_replay_witness:
  "jm_get (activeChats s_three) ''chat_k1'' = Some 0 \<and>
   map msg_id (messages (heap s_three 0)) = [''msg_m1'', ''msg_m2'', ''msg_m3''] \<and>
   on_request_missed_messages sock_customer ''chat_k1'' (Some ''msg_m1'') s_three =
     (s_three, [Emit (To_socket ''c1'') (Out_missed_messages ''chat_k1''
        [\<lparr> msg_id = ''msg_m2'', content = Some ''anyone'', sender = ''user'',
            senderName = Some ''Alice'', time = ''T3'' \<rparr>,
         \<lparr> msg_id = ''msg_m3'', content = Some ''there?'', sender = ''user'',
            senderName = Some ''Alice'', time = ''T4'' \<rparr>])]) \<and>
   on_request_missed_messages sock_customer ''chat_k1'' (Some ''msg_zz'') s_three =
     (s_three, [Emit (To_socket ''c1'') (Out_missed_messages ''chat_k1'' [])])"
  using C8_missed_messages_replay [of s_three "''chat_k1''" 0
      "\<lparr> msg_id = ''msg_m1'', content = Some ''hello'', sender = ''user'',
         senderName = Some ''Alice'', time = ''T2'' \<rparr>"
      "\<lparr> msg_id = ''msg_m2'', content = Some ''anyone'', sender = ''user'',
         senderName = Some ''Alice'', time = ''T3'' \<rparr>"
      "\<lparr> msg_id = ''msg_m3'', content = Some ''there?'', sender = ''user'',
         senderName = Some ''Alice'', time = ''T4'' \<rparr>"
      sock_customer "Some ''msg_zz''"]
  by (simp add: s_three_chat sock_ids)

section \<open>Agent send\<close>

text \<open>What \<^verbatim>\<open>message_from_agent\<close> does on an existing chat, in one equation.\<close>

lemma agent_send_result:
  assumes "jm_get (activeChats s) chatId = Some r"
  shows "on_message_from_agent sock st chatId (Some m) aName s =
     Inr (updateChatActivity chatId (now_ms st)
            (s\<lparr>heap := (heap s)(r := (heap s r)
                 \<lparr>messages := messages (heap s r) @
                     [\<lparr> msg_id = generateShortId ''msg'' (rnd st), content = am_content m,
                         sender = ''agent'', senderName = aName,
                         time = or_else (am_time m) (now_iso st) \<rparr>],
                   agent := (if truthy (agent (heap s r)) then agent (heap s r) else aName)\<rparr>)\<rparr>),
          (if truthy (agent (heap s r)) then []
           else [Emit (To_room_except chatId (sock_id sock)) (Out_agent_joined chatId aName)]) @
          [Emit (To_room chatId) (Out_new_message chatId
             \<lparr> msg_id = generateShortId ''msg'' (rnd st), content = am_content m,
                sender = ''agent'', senderName = aName,
                time = or_else (am_time m) (now_iso st) \<rparr>)])"
  using assms by (simp add: on_message_from_agent_def push_message_def Let_def)

text \<open>
  Once the agent field holds a non-empty name, an agent send leaves it as it is and sends no
  \<^verbatim>\<open>agent_joined\<close>.
\<close>

lemma agent_send_keeps_assigned_agent:
  assumes "jm_get (activeChats s) chatId = Some r" and "truthy (agent (heap s r))"
    and "on_message_from_agent sock st chatId (Some m) aName s = Inr (s', out)"
  shows "agent (heap s' r) = agent (heap s r)"
    and "out = [Emit (To_room chatId) (Out_new_message chatId
             \<lparr> msg_id = generateShortId ''msg'' (rnd st), content = am_content m,
                sender = ''agent'', senderName = aName,
                time = or_else (am_time m) (now_iso st) \<rparr>)]"
  using assms(2,3) agent_send_result [OF assms(1), of sock st m aName]
  by (auto simp: updateChatActivity_frame)




section \<open>Customer actions from an agent origin\<close>




section \<open>Agent assignment\<close>

text \<open>
  Claim C5 fails on the code when the first agent send carries an empty \<^verbatim>\<open>agentName\<close>:
  \<^verbatim>\<open>chat.agent\<close> becomes the empty string, which \<^verbatim>\<open>!chat.agent\<close> still takes for
  unassigned. The first send emits \<^verbatim>\<open>agent_joined\<close>; the second send changes the agent
  field (to Bob) and emits \<^verbatim>\<open>agent_joined\<close> again.
\<close>

theorem C5_empty_agent_name_reassigned:
  "agent (heap s_hello 0) = None \<and>
   agent (heap (fst (projr agent_send_1)) 0) = Some [] \<and>
   snd (projr agent_send_1) =
     [Emit (To_room_except ''chat_k1'' ''a1'') (Out_agent_joined ''chat_k1'' (Some [])),
      Emit (To_room ''chat_k1'') (Out_new_message ''chat_k1''
        \<lparr> msg_id = ''msg_m5'', content = Some ''hi'', sender = ''agent'',
           senderName = Some [], time = ''T5'' \<rparr>)] \<and>
   agent (heap (fst (projr agent_send_2)) 0) = Some ''Bob'' \<and>
   snd (projr agent_send_2) =
     [Emit (To_room_except ''chat_k1'' ''a1'') (Out_agent_joined ''chat_k1'' (Some ''Bob'')),
      Emit (To_room ''chat_k1'') (Out_new_message ''chat_k1''
        \<lparr> msg_id = ''msg_m6'', content = Some ''how can I help'', sender = ''agent'',
           senderName = Some ''Bob'', time = ''T6'' \<rparr>)]"
  by (simp add: agent_send_1_def agent_send_2_def s_hello_eval s_open_eval handler_defs
        example_defs Let_def)

section \<open>Events on an unknown chat id\<close>

text \<open>
  Claim C7, as the code has it. An event whose payload names a chat id that is not in
  \<^verbatim>\<open>activeChats\<close> (never created, or closed) leaves the whole state as it was, and no
  chat is created (for \<^verbatim>\<open>message_from_agent\<close>: an event with a \<^verbatim>\<open>message\<close> field).
  \<^verbatim>\<open>user_message\<close> and \<^verbatim>\<open>message_from_agent\<close> log "Chat not found" and
  \<^verbatim>\<open>save_chat\<close> answers \<^verbatim>\<open>chat_saved\<close> with \<^verbatim>\<open>success: false\<close> and the error
  "Chat not found". \<^verbatim>\<open>update_user_info\<close>, \<^verbatim>\<open>request_missed_messages\<close> and \<^verbatim>\<open>close_chat\<close>
  do and signal nothing. Each of the four typing events is passed on to the room of that id,
  without the sender, and nothing else is sent.
\<close>

theorem C7_unknown_chat_changes_nothing:
  assumes "jm_get (activeChats s) chatId = None"
  shows "(event_chatId ev = Some chatId \<and> payload_complete ev \<longrightarrow>
            (\<exists>out. handle e sock st ev s = Inr (s, out))) \<and>
         handle e sock st (User_message chatId cont sndr) s = Inr (s, [Log_chat_not_found chatId]) \<and>
         handle e sock st (Message_from_agent chatId (Some m) aName) s = Inr (s, [Log_chat_not_found chatId]) \<and>
         handle e sock st (Save_chat chatId) s =
           Inr (s, [Emit (To_socket (sock_id sock)) (Out_chat_saved chatId False (Some ''Chat not found''))]) \<and>
         handle e sock st (Update_user_info chatId uName uEmail uPhone) s = Inr (s, []) \<and>
         handle e sock st (Request_missed_messages chatId lastMessageId) s = Inr (s, []) \<and>
         handle e sock st (Close_chat chatId) s = Inr (s, []) \<and>
         handle e sock st (User_typing chatId) s =
           Inr (s, [Emit (To_room_except chatId (sock_id sock)) (Out_user_typing chatId)]) \<and>
         handle e sock st (User_stop_typing chatId) s =
           Inr (s, [Emit (To_room_except chatId (sock_id sock)) (Out_user_stop_typing chatId)]) \<and>
         handle e sock st (Agent_typing chatId) s =
           Inr (s, [Emit (To_room_except chatId (sock_id sock)) (Out_agent_typing chatId)]) \<and>
         handle e sock st (Agent_stop_typing chatId) s =
           Inr (s, [Emit (To_room_except chatId (sock_id sock)) (Out_agent_stop_typing chatId)])"
proof -
  have every: "event_chatId ev = Some chatId \<and> payload_complete ev \<longrightarrow>
          (\<exists>out. handle e sock st ev s = Inr (s, out))"
  proof (cases ev)
    case (Message_from_agent c msg a)
    with assms show ?thesis
      by (cases msg) (auto simp: on_message_from_agent_def)
  qed (use assms in \<open>auto simp: on_user_message_def on_user_typing_def
         on_user_stop_typing_def on_agent_typing_def on_agent_stop_typing_def
         on_update_user_info_def on_request_missed_messages_def on_save_chat_def
         on_close_chat_def\<close>)
  have sends: "handle e sock st (User_message chatId cont sndr) s = Inr (s, [Log_chat_not_found chatId])"
    "handle e sock st (Message_from_agent chatId (Some m) aName) s = Inr (s, [Log_chat_not_found chatId])"
    using assms by (simp_all add: on_user_message_def on_message_from_agent_def)
  have save: "handle e sock st (Save_chat chatId) s =
           Inr (s, [Emit (To_socket (sock_id sock)) (Out_chat_saved chatId False (Some ''Chat not found''))])"
    using assms by (simp add: on_save_chat_def)
  have silent: "handle e sock st (Update_user_info chatId uName uEmail uPhone) s = Inr (s, [])"
    "handle e sock st (Request_missed_messages chatId lastMessageId) s = Inr (s, [])"
    "handle e sock st (Close_chat chatId) s = Inr (s, [])"
    using assms by (simp_all add: on_update_user_info_def on_request_missed_messages_def on_close_chat_def)
  have typing: "handle e sock st (User_typing chatId) s =
           Inr (s, [Emit (To_room_except chatId (sock_id sock)) (Out_user_typing chatId)])"
    "handle e sock st (User_stop_typing chatId) s =
           Inr (s, [Emit (To_room_except chatId (sock_id sock)) (Out_user_stop_typing chatId)])"
    "handle e sock st (Agent_typing chatId) s =
           Inr (s, [Emit (To_room_except chatId (sock_id sock)) (Out_agent_typing chatId)])"
    "handle e sock st (Agent_stop_typing chatId) s =
           Inr (s, [Emit (To_room_except chatId (sock_id sock)) (Out_agent_stop_typing chatId)])"
    by (simp_all add: on_user_typing_def on_user_stop_typing_def on_agent_typing_def
          on_agent_stop_typing_def)
  show ?thesis
    using every sends save silent typing by simp
qed

lemma s_hello_no_zz: "jm_get (activeChats s_hello) ''chat_zz'' = None"
  by (simp add: s_hello_eval s_open_eval example_defs)

theorem C7_unknown_chat_changes_nothing_witness:
  "jm_get (activeChats s_hello) ''chat_zz'' = None \<and>
   event_chatId (Agent_typing ''chat_zz'') = Some ''chat_zz'' \<and>
   payload_complete (Agent_typing ''chat_zz'') \<and>
   (\<exists>out. handle env_default sock_customer (at 7000 ''T9'' ''m0'') (Agent_typing ''chat_zz'') s_hello
            = Inr (s_hello, out)) \<and>
   handle env_default sock_customer (at 7000 ''T9'' ''m0'') (User_message ''chat_zz'' (Some ''hello?'') None) s_hello
     = Inr (s_hello, [Log_chat_not_found ''chat_zz'']) \<and>
   handle env_default sock_customer (at 7000 ''T9'' ''m0'') (Save_chat ''chat_zz'') s_hello
     = Inr (s_hello, [Emit (To_socket ''c1'') (Out_chat_saved ''chat_zz'' False (Some ''Chat not found''))]) \<and>
   handle env_default sock_customer (at 7000 ''T9'' ''m0'') (User_typing ''chat_zz'') s_hello
     = Inr (s_hello, [Emit (To_room_except ''chat_zz'' ''c1'') (Out_user_typing ''chat_zz'')])"
  using C7_unknown_chat_changes_nothing [OF s_hello_no_zz, where ev = "Agent_typing ''chat_zz''"
      and e = env_default and sock = sock_customer and st = "at 7000 ''T9'' ''m0''"
      and cont = "Some ''hello?''" and sndr = None]
  by (simp add: s_hello_no_zz sock_ids)

text \<open>
  Claim C7 as stated fails in its second part: \<^verbatim>\<open>close_chat\<close> on an unknown chat id gives
  no not-found outcome, nothing is logged as not found and nothing is sent.
\<close>

theorem C7_silent_close_counterexample:
  "event_chatId (Close_chat ''chat_zz'') = Some ''chat_zz'' \<and>
   jm_get (activeChats s_hello) ''chat_zz'' = None \<and>
   handle env_default sock_panel (at 7000 ''T9'' ''m0'') (Close_chat ''chat_zz'') s_hello = Inr (s_hello, [])"
  by (simp add: s_hello_no_zz on_close_chat_def)

section \<open>Automatic saves\<close>

lemma save_begin_frame:
  "heap (snd (save_begin e r s)) = heap s"
  "activeChats (snd (save_begin e r s)) = activeChats s"
  "chatLastActivity (snd (save_begin e r s)) = chatLastActivity s"
  "chatSaveTimers (snd (save_begin e r s)) = chatSaveTimers s"
  "pendingTimers (snd (save_begin e r s)) = pendingTimers s"
  "files (snd (save_begin e r s)) = files s"
  "tasks (snd (save_begin e r s)) = tasks s"
  by (simp_all add: save_begin_def Let_def)

lemma save_begin_cases:
  "save_begin e r s =
     (if truthy (CHAT_API_URL e)
      then (Await_fetch (build_chatData r (heap s r)),
            s\<lparr>posts := posts s @ [(build_chatData r (heap s r), messages (heap s r))]\<rparr>)
      else (Await_fs (build_chatData r (heap s r)), s))"
  by (simp add: save_begin_def stringify_def build_chatData_def Let_def)

text \<open>The sweep at an empty entry, at an unassigned chat, and at an assigned chat.\<close>

lemma sweep_loop_end: "length (activeChats s) \<le> i \<Longrightarrow> sweep_loop e now c i s = s"
  by (subst sweep_loop.simps) simp

lemma sweep_loop_deleted:
  "i < length (activeChats s) \<Longrightarrow> activeChats s ! i = None \<Longrightarrow>
   sweep_loop e now c i s = sweep_loop e now c (Suc i) s"
  by (subst sweep_loop.simps) simp

lemma sweep_loop_unassigned:
  "i < length (activeChats s) \<Longrightarrow> activeChats s ! i = Some (chatId, r) \<Longrightarrow>
   \<not> truthy (agent (heap s r)) \<Longrightarrow>
   sweep_loop e now c i s = sweep_loop e now c (Suc i) s"
  by (subst sweep_loop.simps) simp

lemma sweep_loop_assigned:
  "i < length (activeChats s) \<Longrightarrow> activeChats s ! i = Some (chatId, r) \<Longrightarrow>
   truthy (agent (heap s r)) \<Longrightarrow>
   sweep_loop e now c i s =
     (if messages (heap s r) \<noteq> [] \<and>
         now - (case jm_get (chatLastActivity s) chatId of None \<Rightarrow> 0 | Some t \<Rightarrow> t) > AUTOSAVE_INTERVAL
      then (snd (save_begin e r s))
             \<lparr>tasks := tasks s @ [(K_sweep now c (Suc i) chatId, fst (save_begin e r s))]\<rparr>
      else sweep_loop e now c (Suc i) s)"
  by (subst sweep_loop.simps) (simp add: Let_def save_begin_frame case_prod_unfold)

text \<open>
  A run of the loop either ends with the state as it was, or is suspended in the save of one
  chat, which has an agent, has messages and has been inactive for more than AUTOSAVE_INTERVAL.
\<close>

lemma sweep_loop_cases:
  "sweep_loop e now c i s = s \<or>
   (\<exists>j chatId r. i \<le> j \<and> j < length (activeChats s) \<and> activeChats s ! j = Some (chatId, r) \<and>
      truthy (agent (heap s r)) \<and> messages (heap s r) \<noteq> [] \<and>
      now - (case jm_get (chatLastActivity s) chatId of None \<Rightarrow> 0 | Some t \<Rightarrow> t) > AUTOSAVE_INTERVAL \<and>
      sweep_loop e now c i s =
        (snd (save_begin e r s))
          \<lparr>tasks := tasks s @ [(K_sweep now c (Suc j) chatId, fst (save_begin e r s))]\<rparr>)"
proof (induction "length (activeChats s) - i" arbitrary: i)
  case 0
  then show ?case by (simp add: sweep_loop_end)
next
  case (Suc n)
  then have less: "i < length (activeChats s)" and n: "n = length (activeChats s) - Suc i"
    by simp_all
  note IH = Suc.hyps(1) [OF n]
  show ?case
  proof (cases "activeChats s ! i")
    case None
    with less IH show ?thesis
      by (auto simp: sweep_loop_deleted intro: Suc_leD)
  next
    case (Some entry)
    obtain chatId r where entry: "entry = (chatId, r)" by (cases entry)
    show ?thesis
    proof (cases "truthy (agent (heap s r))")
      case False
      with less Some entry IH show ?thesis
        by (auto simp: sweep_loop_unassigned intro: Suc_leD)
    next
      case True
      show ?thesis
      proof (cases "messages (heap s r) \<noteq> [] \<and>
         now - (case jm_get (chatLastActivity s) chatId of None \<Rightarrow> 0 | Some t \<Rightarrow> t) > AUTOSAVE_INTERVAL")
        case hit: True
        have "sweep_loop e now c i s =
          (snd (save_begin e r s))\<lparr>tasks := tasks s @ [(K_sweep now c (Suc i) chatId, fst (save_begin e r s))]\<rparr>"
          using less Some entry True hit by (simp add: sweep_loop_assigned)
        with less Some entry True hit show ?thesis by blast
      next
        case miss: False
        have "sweep_loop e now c i s = sweep_loop e now c (Suc i) s"
          using less Some entry True miss sweep_loop_assigned [of i s chatId r e now c] by auto
        with IH show ?thesis by (auto intro: Suc_leD)
      qed
    qed
  qed
qed

lemma sweep_loop_keeps_activity: "chatLastActivity (sweep_loop e now c i s) = chatLastActivity s"
  using sweep_loop_cases [of e now c i s] by (auto simp: save_begin_frame)


text \<open>
  The first loop of the \<^verbatim>\<open>disconnect\<close> handler either runs to its end, or is suspended in
  the save of one chat, whose agent field equals the \<^verbatim>\<open>agentName\<close> of the agent that
  left and which has messages.
\<close>

lemma disconnect_loop_cases:
  "disconnect_loop e sid aName i s =
     (s\<lparr>connectedAgents := jm_delete (connectedAgents s) sid\<rparr>,
      customer_disconnected sid (s\<lparr>connectedAgents := jm_delete (connectedAgents s) sid\<rparr>)) \<or>
   (\<exists>j chatId r. i \<le> j \<and> j < length (activeChats s) \<and> activeChats s ! j = Some (chatId, r) \<and>
      agent (heap s r) = aName \<and> messages (heap s r) \<noteq> [] \<and>
      disconnect_loop e sid aName i s =
        ((snd (save_begin e r s))
           \<lparr>tasks := tasks s @ [(K_disconnect sid aName (Suc j), fst (save_begin e r s))]\<rparr>, []))"
proof (induction "length (activeChats s) - i" arbitrary: i)
  case 0
  then show ?case by (subst disconnect_loop.simps) (simp add: Let_def)
next
  case (Suc n)
  then have less: "i < length (activeChats s)" and n: "n = length (activeChats s) - Suc i"
    by simp_all
  note IH = Suc.hyps(1) [OF n]
  show ?case
  proof (cases "activeChats s ! i")
    case None
    then have "disconnect_loop e sid aName i s = disconnect_loop e sid aName (Suc i) s"
      using less by (subst disconnect_loop.simps) simp
    with IH show ?thesis by (auto intro: Suc_leD)
  next
    case (Some entry)
    obtain chatId r where entry: "entry = (chatId, r)" by (cases entry)
    show ?thesis
    proof (cases "agent (heap s r) = aName \<and> messages (heap s r) \<noteq> []")
      case True
      have "disconnect_loop e sid aName i s =
        ((snd (save_begin e r s))
           \<lparr>tasks := tasks s @ [(K_disconnect sid aName (Suc i), fst (save_begin e r s))]\<rparr>, [])"
        using less Some entry True
        by (subst disconnect_loop.simps) (simp add: save_begin_frame case_prod_unfold)
      with less Some entry True show ?thesis by blast
    next
      case False
      then have "disconnect_loop e sid aName i s = disconnect_loop e sid aName (Suc i) s"
        using less Some entry by (subst disconnect_loop.simps) auto
      with IH show ?thesis by (auto intro: Suc_leD)
    qed
  qed
qed

text \<open>The loop passes every entry that does not pass its tests.\<close>

lemma sweep_loop_not_overdue:
  "k < length (activeChats s) \<Longrightarrow> \<not> sweep_overdue now s k \<Longrightarrow>
   sweep_loop e now c k s = sweep_loop e now c (Suc k) s"
  by (subst sweep_loop.simps) (auto simp: sweep_overdue_def Let_def split: option.splits)

lemma sweep_loop_passes:
  "i + n \<le> length (activeChats s) \<Longrightarrow> \<forall>k. i \<le> k \<and> k < i + n \<longrightarrow> \<not> sweep_overdue now s k \<Longrightarrow>
   sweep_loop e now c i s = sweep_loop e now c (i + n) s"
proof (induction n)
  case 0
  then show ?case by simp
next
  case (Suc n)
  then have "sweep_loop e now c i s = sweep_loop e now c (i + n) s"
    by simp
  also have "\<dots> = sweep_loop e now c (Suc (i + n)) s"
    using Suc.prems by (intro sweep_loop_not_overdue) auto
  finally show ?case by simp
qed

lemma sweep_loop_reaches:
  assumes "i \<le> j" and "j \<le> length (activeChats s)"
    and "\<forall>k. i \<le> k \<and> k < j \<longrightarrow> \<not> sweep_overdue now s k"
  shows "sweep_loop e now c i s = sweep_loop e now c j s"
  using sweep_loop_passes [of i "j - i" s now e c] assms by simp

text \<open>
  A run that nothing interrupts. Each save takes two resumptions; after them the loop has
  stamped the chat and is at the next entry.
\<close>

lemma messages_ref_build: "messages_ref (build_chatData r c) = r"
  by (simp add: build_chatData_def Let_def)


lemma two_resumes:
  "sweep_resumed e (length (tasks s)) (t1 # t2 # clocks)
     ((snd (save_begin e r s))\<lparr>tasks := tasks s @ [(K_sweep now c i' chatId, fst (save_begin e r s))]\<rparr>)
   = sweep_resumed e (length (tasks s)) clocks
       (sweep_loop e now (Suc c) i'
          ((after_save e r t1 s)\<lparr>chatLastActivity := jm_set (chatLastActivity s) chatId now\<rparr>))"
  by (simp add: save_begin_cases after_save_def resume_def stringify_def messages_ref_build)


lemma after_save_frame:
  "heap (after_save e r t s) = heap s"
  "activeChats (after_save e r t s) = activeChats s"
  "chatLastActivity (after_save e r t s) = chatLastActivity s"
  "tasks (after_save e r t s) = tasks s"
  by (simp_all add: after_save_def)

lemma sweep_resumed_no_task: "sweep_resumed e (length (tasks s)) clocks s = s"
  by (cases clocks) (simp_all add: resume_def)

lemma overdue_entries_end: "length (activeChats s) \<le> i \<Longrightarrow> overdue_entries now s i = []"
  by (simp add: overdue_entries_def map_filter_simps)

lemma overdue_entries_skip:
  "i < length (activeChats s) \<Longrightarrow> \<not> sweep_overdue now s i \<Longrightarrow>
   overdue_entries now s i = overdue_entries now s (Suc i)"
  by (simp add: overdue_entries_def upt_conv_Cons map_filter_simps)

lemma overdue_entries_Cons:
  "i < length (activeChats s) \<Longrightarrow> activeChats s ! i = Some (chatId, r) \<Longrightarrow> sweep_overdue now s i \<Longrightarrow>
   overdue_entries now s i = (chatId, r) # overdue_entries now s (Suc i)"
  by (simp add: overdue_entries_def upt_conv_Cons map_filter_simps)

lemma unique_keys_nth:
  assumes "unique_keys m" and "j < k" and "k < length m"
    and "m ! j = Some (a, v)" and "m ! k = Some (b, w)"
  shows "a \<noteq> b"
proof -
  from assms(1,3) have "list_all (\<lambda>j. case (m ! j, m ! k) of
                                     (Some (a, v), Some (b, w)) \<Rightarrow> a \<noteq> b
                                   | _ \<Rightarrow> True) [0..<k]"
    by (simp add: unique_keys_def list_all_iff)
  with assms(2) have "case (m ! j, m ! k) of (Some (a, v), Some (b, w)) \<Rightarrow> a \<noteq> b | _ \<Rightarrow> True"
    by (simp add: list_all_iff)
  with assms(4,5) show ?thesis by simp
qed

lemma map_filter_agree:
  "\<forall>x \<in> set xs. f x = g x \<Longrightarrow> List.map_filter f xs = List.map_filter g xs"
  by (induction xs) (auto simp: map_filter_simps split: option.splits)

lemma overdue_entries_stamped:
  assumes "heap s' = heap s" and "activeChats s' = activeChats s"
    and "chatLastActivity s' = jm_set (chatLastActivity s) chatId now"
    and "unique_keys (activeChats s)"
    and "i < length (activeChats s)" and "activeChats s ! i = Some (chatId, r)"
  shows "overdue_entries now s' (Suc i) = overdue_entries now s (Suc i)"
proof -
  have "sweep_overdue now s' j = sweep_overdue now s j"
    if "Suc i \<le> j" and "j < length (activeChats s)" for j
  proof (cases "activeChats s ! j")
    case None
    then show ?thesis using assms(2) by (simp add: sweep_overdue_def)
  next
    case (Some entry)
    obtain chatId' r' where entry: "entry = (chatId', r')" by (cases entry)
    have "chatId \<noteq> chatId'"
      using unique_keys_nth [OF assms(4) _ that(2) assms(6)] Some entry that(1) by auto
    then show ?thesis
      using Some entry assms(1,2,3) by (simp add: sweep_overdue_def jm_get_set_other)
  qed
  then show ?thesis
    using assms(2) by (auto simp: overdue_entries_def intro!: map_filter_agree)
qed

lemma sweep_run_from:
  assumes "unique_keys (activeChats s)" and "2 * (length (activeChats s) - i) \<le> length clocks"
  shows "tasks (sweep_resumed e (length (tasks s)) clocks (sweep_loop e now c i s)) = tasks s \<and>
     heap (sweep_resumed e (length (tasks s)) clocks (sweep_loop e now c i s)) = heap s \<and>
     activeChats (sweep_resumed e (length (tasks s)) clocks (sweep_loop e now c i s)) = activeChats s \<and>
     (\<forall>chatId. jm_get (chatLastActivity
                  (sweep_resumed e (length (tasks s)) clocks (sweep_loop e now c i s))) chatId =
        (if chatId \<in> fst ` set (overdue_entries now s i) then Some now
         else jm_get (chatLastActivity s) chatId)) \<and>
     posts (sweep_resumed e (length (tasks s)) clocks (sweep_loop e now c i s)) =
       posts s @ (if truthy (CHAT_API_URL e)
                  then map (\<lambda>p. (build_chatData (snd p) (heap s (snd p)), messages (heap s (snd p))))
                         (overdue_entries now s i)
                  else []) \<and>
     map snd (files (sweep_resumed e (length (tasks s)) clocks (sweep_loop e now c i s))) =
       map snd (files s) @
         (if truthy (CHAT_API_URL e) then []
          else map (\<lambda>p. (build_chatData (snd p) (heap s (snd p)), messages (heap s (snd p))))
                 (overdue_entries now s i))"
  using assms
proof (induction "length (activeChats s) - i" arbitrary: i c s clocks)
  case 0
  then have "length (activeChats s) \<le> i" by simp
  then show ?case
    by (simp add: sweep_loop_end sweep_resumed_no_task overdue_entries_end)
next
  case (Suc n)
  then have less: "i < length (activeChats s)" and n: "n = length (activeChats s) - Suc i"
    by simp_all
  show ?case
  proof (cases "sweep_overdue now s i")
    case False
    have "2 * (length (activeChats s) - Suc i) \<le> length clocks"
      using Suc.prems(2) by simp
    from Suc.hyps(1) [OF n Suc.prems(1) this, where c = c] less False
    show ?thesis
      by (simp add: sweep_loop_not_overdue overdue_entries_skip)
  next
    case True
    then obtain chatId r where entry: "activeChats s ! i = Some (chatId, r)"
      and assigned: "truthy (agent (heap s r))" and has: "messages (heap s r) \<noteq> []"
      and late: "now - (case jm_get (chatLastActivity s) chatId of None \<Rightarrow> 0 | Some t \<Rightarrow> t)
                   > AUTOSAVE_INTERVAL"
      by (auto simp: sweep_overdue_def split: option.splits)
    obtain t1 t2 rest where clocks: "clocks = t1 # t2 # rest"
      using Suc.prems(2) less by (cases clocks; cases "tl clocks") auto
    define s' where "s' = (after_save e r t1 s)\<lparr>chatLastActivity := jm_set (chatLastActivity s) chatId now\<rparr>"
    have frame: "heap s' = heap s" "activeChats s' = activeChats s" "tasks s' = tasks s"
      "chatLastActivity s' = jm_set (chatLastActivity s) chatId now"
      by (simp_all add: s'_def after_save_frame)
    have suspended: "sweep_loop e now c i s =
        (snd (save_begin e r s))\<lparr>tasks := tasks s @ [(K_sweep now c (Suc i) chatId, fst (save_begin e r s))]\<rparr>"
      using less entry assigned has late by (simp add: sweep_loop_assigned)
    have run: "sweep_resumed e (length (tasks s)) clocks (sweep_loop e now c i s) =
        sweep_resumed e (length (tasks s')) rest (sweep_loop e now (Suc c) (Suc i) s')"
      unfolding suspended clocks s'_def
      by (simp add: two_resumes after_save_frame del: sweep_resumed.simps)
    have n': "n = length (activeChats s') - Suc i" using n frame by simp
    have uk: "unique_keys (activeChats s')" using Suc.prems(1) frame by simp
    have enough: "2 * (length (activeChats s') - Suc i) \<le> length rest"
      using Suc.prems(2) less clocks frame by simp
    note IH = Suc.hyps(1) [OF n' uk enough, where c = "Suc c"]
    have later: "overdue_entries now s' (Suc i) = overdue_entries now s (Suc i)"
      using frame Suc.prems(1) less entry by (intro overdue_entries_stamped) auto
    have here: "overdue_entries now s i = (chatId, r) # overdue_entries now s (Suc i)"
      using less entry True by (rule overdue_entries_Cons)
    have saved_posts: "posts s' = posts s @ (if truthy (CHAT_API_URL e)
         then [(build_chatData r (heap s r), messages (heap s r))] else [])"
      by (simp add: s'_def after_save_def)
    have saved_files: "map snd (files s') = map snd (files s) @ (if truthy (CHAT_API_URL e)
         then [] else [(build_chatData r (heap s r), messages (heap s r))])"
      by (simp add: s'_def after_save_def)
    show ?thesis
      unfolding run here
      using IH later frame saved_posts saved_files
      by (auto simp: jm_get_set_same jm_get_set_other)
  qed
qed

lemma overdue_entries_ids:
  assumes "unique_keys (activeChats s)" and "j < length (activeChats s)"
    and "activeChats s ! j = Some (chatId, r)"
  shows "chatId \<in> fst ` set (overdue_entries now s 0) \<longleftrightarrow> sweep_overdue now s j"
proof
  assume "sweep_overdue now s j"
  then have "(chatId, r) \<in> set (overdue_entries now s 0)"
    using assms(2,3) by (force simp: overdue_entries_def map_filter_def)
  then show "chatId \<in> fst ` set (overdue_entries now s 0)" by force
next
  assume "chatId \<in> fst ` set (overdue_entries now s 0)"
  then obtain k r' where k: "k < length (activeChats s)" "sweep_overdue now s k"
    "activeChats s ! k = Some (chatId, r')"
    by (auto simp: overdue_entries_def map_filter_def split: if_splits)
  have "k = j"
  proof (rule ccontr)
    assume "k \<noteq> j"
    then consider "k < j" | "j < k" by linarith
    then show False
      using unique_keys_nth [OF assms(1) _ assms(2) k(3) assms(3)]
        unique_keys_nth [OF assms(1) _ k(1) assms(3) k(3)]
      by cases auto
  qed
  with k show "sweep_overdue now s j" by simp
qed

lemma s_agent_eval:
  "s_agent = s_hello\<lparr> heap := (heap s_hello)(0 := (heap s_hello 0)\<lparr> messages :=
       [\<lparr> msg_id = ''msg_m1'', content = Some ''hello'', sender = ''user'',
           senderName = Some ''Alice'', time = ''T2'' \<rparr>,
        \<lparr> msg_id = ''msg_m5'', content = Some ''hi Alice'', sender = ''agent'',
           senderName = Some ''Ann'', time = ''T5'' \<rparr>], agent := Some ''Ann'' \<rparr>),
     connectedAgents := [Some (''a1'', \<lparr> agentId = Some ''ag1'', agentName = Some ''Ann'',
        ac_socketId = ''a1'',
        ac_origin = Some ''https://fantickets.cloud/design/agent-panel/inbox'',
        connectedAt = ''T4'' \<rparr>)],
     chatLastActivity := [Some (''chat_k1'', 3000)],
     chatSaveTimers := [Some (''chat_k1'', 0)],
     pendingTimers := [(0, ''chat_k1'', 120000)],
     nextTimer := 1 \<rparr>"
  by (simp add: s_agent_def s_hello_eval s_open_eval handler_defs example_defs Let_def)

lemma s_timer_saved_eval:
  "s_timer_saved = s_agent\<lparr> chatSaveTimers := [None], pendingTimers := [],
     files := [((''chat_k1'', 123500),
        (\<lparr> cd_chatroom_id = ''chat_k1'', agent_id = Some ''Ann'', user_id = Some ''u1'',
            user_name = Some ''Alice'', user_email = [], user_phone = [], user_ip = ''10.0.0.7'',
            socket_id = ''c1'', status = ''closed'', last_message_at = ''T5'', messages_ref = 0 \<rparr>,
         [\<lparr> msg_id = ''msg_m1'', content = Some ''hello'', sender = ''user'',
             senderName = Some ''Alice'', time = ''T2'' \<rparr>,
          \<lparr> msg_id = ''msg_m5'', content = Some ''hi Alice'', sender = ''agent'',
             senderName = Some ''Ann'', time = ''T5'' \<rparr>]))] \<rparr>"
  by (simp add: s_timer_saved_def s_agent_eval s_hello_eval s_open_eval handler_defs example_defs Let_def)

lemma s_timer_saved_chat:
  "activeChats s_timer_saved = [Some (''chat_k1'', 0)]"
  "agent (heap s_timer_saved 0) = Some ''Ann''"
  "map msg_id (messages (heap s_timer_saved 0)) = [''msg_m1'', ''msg_m5'']"
  "chatLastActivity s_timer_saved = [Some (''chat_k1'', 3000)]"
  by (simp_all add: s_timer_saved_eval s_agent_eval s_hello_eval s_open_eval example_defs)

text \<open>
  What holds of a chat whose agent field is unset (undefined or empty):
  a customer send records no activity, arms no timer and starts no save;
  \<^verbatim>\<open>scheduleAutoSave\<close> does nothing; a timer that fires for its chat id starts no save;
  and the periodic sweep, from any position, either changes nothing or is suspended in the
  save of another chat, one that has an agent.
\<close>

lemma unassigned_not_saved_by_send_timer_sweep:
  assumes "jm_get (activeChats s) chatId = Some r" and "\<not> truthy (agent (heap s r))"
  shows "chatLastActivity (fst (on_user_message sock st chatId cont sndr s)) = chatLastActivity s \<and>
         chatSaveTimers (fst (on_user_message sock st chatId cont sndr s)) = chatSaveTimers s \<and>
         pendingTimers (fst (on_user_message sock st chatId cont sndr s)) = pendingTimers s \<and>
         tasks (fst (on_user_message sock st chatId cont sndr s)) = tasks s \<and>
         posts (fst (on_user_message sock st chatId cont sndr s)) = posts s \<and>
         files (fst (on_user_message sock st chatId cont sndr s)) = files s \<and>
         scheduleAutoSave chatId s = s \<and>
         (map_of (pendingTimers s) h = Some (chatId, d) \<longrightarrow>
            (\<exists>s'. timer_fires e h s = Some s' \<and>
                  tasks s' = tasks s \<and> posts s' = posts s \<and> files s' = files s)) \<and>
         (sweep_loop e now c i s = s \<or>
          (\<exists>j chatId' r'. r' \<noteq> r \<and> truthy (agent (heap s r')) \<and>
             activeChats s ! j = Some (chatId', r') \<and>
             sweep_loop e now c i s =
               (snd (save_begin e r' s))
                 \<lparr>tasks := tasks s @ [(K_sweep now c (Suc j) chatId', fst (save_begin e r' s))]\<rparr>))"
proof -
  have send: "fst (on_user_message sock st chatId cont sndr s) =
      push_message r \<lparr> msg_id = generateShortId ''msg'' (rnd st), content = cont,
                       sender = or_else sndr ''user'', senderName = userName (heap s r),
                       time = now_iso st \<rparr> s"
    using assms by (simp add: on_user_message_def push_message_def Let_def)
  have timer: "map_of (pendingTimers s) h = Some (chatId, d) \<longrightarrow>
            (\<exists>s'. timer_fires e h s = Some s' \<and>
                  tasks s' = tasks s \<and> posts s' = posts s \<and> files s' = files s)"
    using assms by (simp add: timer_fires_def clearTimeout_def Let_def)
  have sweep: "sweep_loop e now c i s = s \<or>
          (\<exists>j chatId' r'. r' \<noteq> r \<and> truthy (agent (heap s r')) \<and>
             activeChats s ! j = Some (chatId', r') \<and>
             sweep_loop e now c i s =
               (snd (save_begin e r' s))
                 \<lparr>tasks := tasks s @ [(K_sweep now c (Suc j) chatId', fst (save_begin e r' s))]\<rparr>)"
    using sweep_loop_cases [of e now c i s] assms(2) by fastforce
  have "scheduleAutoSave chatId s = s"
    using assms by (simp add: scheduleAutoSave_def)
  with send timer sweep show ?thesis
    by (simp add: push_message_def)
qed

lemma s_stray_timer_chat:
  "jm_get (activeChats s_stray_timer) ''chat_k1'' = Some 0"
  "\<not> truthy (agent (heap s_stray_timer 0))"
  "map_of (pendingTimers s_stray_timer) 0 = Some (''chat_k1'', INACTIVITY_SAVE_DELAY)"
  "activeChats s_stray_timer = [Some (''chat_k1'', 0)]"
  by (simp_all add: s_stray_timer_def s_hello_eval s_open_eval example_defs truthy_def)

lemma unassigned_not_saved_example:
  "jm_get (activeChats s_stray_timer) ''chat_k1'' = Some 0 \<and>
   \<not> truthy (agent (heap s_stray_timer 0)) \<and>
   map_of (pendingTimers s_stray_timer) 0 = Some (''chat_k1'', INACTIVITY_SAVE_DELAY) \<and>
   chatLastActivity (fst (on_user_message sock_customer (at 9000 ''T9'' ''m4'') ''chat_k1''
                            (Some ''still waiting'') None s_stray_timer)) = [] \<and>
   (\<exists>s'. timer_fires env_default 0 s_stray_timer = Some s' \<and>
         tasks s' = [] \<and> posts s' = [] \<and> files s' = []) \<and>
   sweep_loop env_default 900000 0 0 s_stray_timer = s_stray_timer"
proof -
  have sweep: "sweep_loop env_default 900000 0 0 s_stray_timer = s_stray_timer"
    by (simp add: sweep_loop_unassigned [of 0 s_stray_timer "''chat_k1''" 0] s_stray_timer_chat
          sweep_loop_end)
  have frame: "chatLastActivity s_stray_timer = []" "tasks s_stray_timer = []"
    "posts s_stray_timer = []" "files s_stray_timer = []"
    by (simp_all add: s_stray_timer_def s_hello_eval s_open_eval example_defs)
  show ?thesis
    using unassigned_not_saved_by_send_timer_sweep [OF s_stray_timer_chat(1,2),
        where sock = sock_customer and st = "at 9000 ''T9'' ''m4''"
          and cont = "Some ''still waiting''" and sndr = None and h = 0
          and d = INACTIVITY_SAVE_DELAY and e = env_default and now = 900000 and c = 0 and i = 0]
    by (simp add: s_stray_timer_chat sweep frame)
qed

lemma s_mixed_eval:
  "activeChats s_mixed = [None, Some (''chat_k2'', 1), Some (''chat_k1'', 2)]"
  "agent (heap s_mixed 1) = None"
  "agent (heap s_mixed (Suc 0)) = None"
  "agent (heap s_mixed 2) = Some ''Ann''"
  "map msg_id (messages (heap s_mixed 2)) = [''msg_m4'', ''msg_m5'']"
  "messages (heap s_mixed 2) \<noteq> []"
  "chatLastActivity s_mixed = [Some (''chat_k1'', 3000)]"
  "tasks s_mixed = []"
  "posts s_mixed = []"
  "map fst (files s_mixed) = [(''chat_k0'', 500)]"
  by (simp_all add: s_mixed_def s_closed_one_def handler_defs example_defs Let_def)

lemma s_mixed_overdue:
  "\<not> sweep_overdue now s_mixed 0" "\<not> sweep_overdue now s_mixed (Suc 0)"
  "sweep_overdue 303001 s_mixed 2" "\<not> sweep_overdue 303000 s_mixed 2"
  by (simp_all add: sweep_overdue_def s_mixed_eval truthy_def AUTOSAVE_INTERVAL_def)

lemma s_mixed_entries:
  "overdue_entries 303001 s_mixed 0 = [(''chat_k1'', 2)]"
  "unique_keys (activeChats s_mixed)"
  by (simp_all add: sweep_overdue_def overdue_entries_def unique_keys_def s_mixed_eval truthy_def
        AUTOSAVE_INTERVAL_def map_filter_simps)

text \<open>
  Claim C9 fails on the code in the \<^verbatim>\<open>disconnect\<close> handler, whose loop is meant to save the
  chats assigned to the agent that left and logs "Auto-saving chat ... due to agent
  disconnect". An agent that joined without \<^verbatim>\<open>agentName\<close> leaves; the chat has no agent
  (undefined) and one message; \<^verbatim>\<open>chat.agent === agent.agentName\<close> holds, and the chat is
  saved, with status \<open>pending\<close>.
\<close>

theorem C9_disconnect_saves_unassigned_chat:
  "agent (heap s_nameless_agent 0) = None \<and>
   map msg_id (messages (heap s_nameless_agent 0)) = [''msg_m1''] \<and>
   jm_get (activeChats s_nameless_agent) ''chat_k1'' = Some 0 \<and>
   map agentName (jm_values (connectedAgents s_nameless_agent)) = [None] \<and>
   files s_nameless_agent = [] \<and>
   tasks s_agent_left =
     [(K_disconnect ''a1'' None 1, Await_fs (build_chatData 0 (heap s_nameless_agent 0)))] \<and>
   status (build_chatData 0 (heap s_nameless_agent 0)) = ''pending'' \<and>
   files s_agent_left_saved =
     [((''chat_k1'', 8000),
       (build_chatData 0 (heap s_nameless_agent 0), messages (heap s_nameless_agent 0)))]"
  by (simp add: s_agent_left_saved_def s_agent_left_def s_nameless_agent_def s_hello_eval s_open_eval
        handler_defs example_defs on_disconnect_def customer_disconnected_def map_filter_simps
        disconnect_loop.simps [of _ _ _ 0] disconnect_loop.simps [of _ _ _ "Suc 0"] Let_def
        jm_values_def)

text \<open>
  Claim C3, as the code has it. A run of the periodic sweep goes through the entries of
  \<^verbatim>\<open>activeChats\<close> in order, from the first: it passes removed entries, chats without agent,
  chats without messages and chats that are not overdue, it stops where no entry is left,
  and after each save it awaits it stamps the chat's last activity with the run's
  \<^verbatim>\<open>now\<close> and goes on with the next entry. A chat with an agent and at least one
  message is saved if and only if \<^verbatim>\<open>now\<close> minus its recorded last activity (0 when none is
  recorded) is more than \<^verbatim>\<open>AUTOSAVE_INTERVAL\<close>, five minutes. In a run that nothing
  interrupts, with every awaited operation fulfilled, the chats saved and stamped are
  exactly those of the map that pass this test in the state at the tick, each saved once,
  in the order of the map, and the last activity of the other chats is left as it was.
\<close>

theorem C3_sweep_threshold:
  assumes "i \<le> j" and "\<forall>k. i \<le> k \<and> k < j \<longrightarrow> \<not> sweep_overdue now s k"
  shows "AUTOSAVE_INTERVAL = 5 * 60 * 1000 \<and>
         sweep_tick e now s = sweep_loop e now 0 0 s \<and>
         (length (activeChats s) \<le> j \<longrightarrow> sweep_loop e now c i s = s) \<and>
         (j < length (activeChats s) \<and> activeChats s ! j = Some (chatId, r) \<and>
          truthy (agent (heap s r)) \<and> messages (heap s r) \<noteq> [] \<longrightarrow>
            sweep_overdue now s j =
              (now - (case jm_get (chatLastActivity s) chatId of None \<Rightarrow> 0 | Some t \<Rightarrow> t)
                 > AUTOSAVE_INTERVAL) \<and>
            (if now - (case jm_get (chatLastActivity s) chatId of None \<Rightarrow> 0 | Some t \<Rightarrow> t)
                  > AUTOSAVE_INTERVAL
             then sweep_loop e now c i s =
                    (snd (save_begin e r s))
                      \<lparr>tasks := tasks s @ [(K_sweep now c (Suc j) chatId, fst (save_begin e r s))]\<rparr>
             else sweep_loop e now c i s = sweep_loop e now c (Suc j) s)) \<and>
         (\<forall>res s'. task_done e (K_sweep now c (Suc j) chatId) res s' =
            (sweep_loop e now (Suc c) (Suc j)
               (s'\<lparr>chatLastActivity := jm_set (chatLastActivity s') chatId now\<rparr>), []) \<and>
            jm_get (chatLastActivity (fst (task_done e (K_sweep now c (Suc j) chatId) res s'))) chatId
              = Some now) \<and>
         (unique_keys (activeChats s) \<and> 2 * length (activeChats s) \<le> length clocks \<longrightarrow>
            tasks (sweep_resumed e (length (tasks s)) clocks (sweep_tick e now s)) = tasks s \<and>
            (\<forall>k chatId' r'. k < length (activeChats s) \<and> activeChats s ! k = Some (chatId', r') \<longrightarrow>
               jm_get (chatLastActivity
                         (sweep_resumed e (length (tasks s)) clocks (sweep_tick e now s))) chatId' =
                 (if sweep_overdue now s k then Some now else jm_get (chatLastActivity s) chatId')) \<and>
            posts (sweep_resumed e (length (tasks s)) clocks (sweep_tick e now s)) =
              posts s @ (if truthy (CHAT_API_URL e)
                         then map (\<lambda>p. (build_chatData (snd p) (heap s (snd p)),
                                         messages (heap s (snd p))))
                                (overdue_entries now s 0)
                         else []) \<and>
            map snd (files (sweep_resumed e (length (tasks s)) clocks (sweep_tick e now s))) =
              map snd (files s) @
                (if truthy (CHAT_API_URL e) then []
                 else map (\<lambda>p. (build_chatData (snd p) (heap s (snd p)), messages (heap s (snd p))))
                        (overdue_entries now s 0)))"
proof -
  have ended: "length (activeChats s) \<le> j \<longrightarrow> sweep_loop e now c i s = s"
  proof
    assume len: "length (activeChats s) \<le> j"
    show "sweep_loop e now c i s = s"
    proof (cases "i \<le> length (activeChats s)")
      case True
      then have "sweep_loop e now c i s = sweep_loop e now c (length (activeChats s)) s"
        using assms len by (intro sweep_loop_reaches) auto
      then show ?thesis by (simp add: sweep_loop_end)
    next
      case False
      then show ?thesis by (simp add: sweep_loop_end)
    qed
  qed
  have at_j: "j < length (activeChats s) \<and> activeChats s ! j = Some (chatId, r) \<and>
          truthy (agent (heap s r)) \<and> messages (heap s r) \<noteq> [] \<longrightarrow>
            sweep_overdue now s j =
              (now - (case jm_get (chatLastActivity s) chatId of None \<Rightarrow> 0 | Some t \<Rightarrow> t)
                 > AUTOSAVE_INTERVAL) \<and>
            (if now - (case jm_get (chatLastActivity s) chatId of None \<Rightarrow> 0 | Some t \<Rightarrow> t)
                  > AUTOSAVE_INTERVAL
             then sweep_loop e now c i s =
                    (snd (save_begin e r s))
                      \<lparr>tasks := tasks s @ [(K_sweep now c (Suc j) chatId, fst (save_begin e r s))]\<rparr>
             else sweep_loop e now c i s = sweep_loop e now c (Suc j) s)"
  proof
    assume entry: "j < length (activeChats s) \<and> activeChats s ! j = Some (chatId, r) \<and>
          truthy (agent (heap s r)) \<and> messages (heap s r) \<noteq> []"
    then have "sweep_loop e now c i s = sweep_loop e now c j s"
      using assms by (intro sweep_loop_reaches) auto
    with entry show "sweep_overdue now s j =
              (now - (case jm_get (chatLastActivity s) chatId of None \<Rightarrow> 0 | Some t \<Rightarrow> t)
                 > AUTOSAVE_INTERVAL) \<and>
            (if now - (case jm_get (chatLastActivity s) chatId of None \<Rightarrow> 0 | Some t \<Rightarrow> t)
                  > AUTOSAVE_INTERVAL
             then sweep_loop e now c i s =
                    (snd (save_begin e r s))
                      \<lparr>tasks := tasks s @ [(K_sweep now c (Suc j) chatId, fst (save_begin e r s))]\<rparr>
             else sweep_loop e now c i s = sweep_loop e now c (Suc j) s)"
      by (simp add: sweep_loop_assigned sweep_overdue_def)
  qed
  have resumed: "\<forall>res s'. task_done e (K_sweep now c (Suc j) chatId) res s' =
            (sweep_loop e now (Suc c) (Suc j)
               (s'\<lparr>chatLastActivity := jm_set (chatLastActivity s') chatId now\<rparr>), []) \<and>
            jm_get (chatLastActivity (fst (task_done e (K_sweep now c (Suc j) chatId) res s'))) chatId
              = Some now"
    by (simp add: sweep_loop_keeps_activity jm_get_set_same)
  have whole: "unique_keys (activeChats s) \<and> 2 * length (activeChats s) \<le> length clocks \<longrightarrow>
            tasks (sweep_resumed e (length (tasks s)) clocks (sweep_tick e now s)) = tasks s \<and>
            (\<forall>k chatId' r'. k < length (activeChats s) \<and> activeChats s ! k = Some (chatId', r') \<longrightarrow>
               jm_get (chatLastActivity
                         (sweep_resumed e (length (tasks s)) clocks (sweep_tick e now s))) chatId' =
                 (if sweep_overdue now s k then Some now else jm_get (chatLastActivity s) chatId')) \<and>
            posts (sweep_resumed e (length (tasks s)) clocks (sweep_tick e now s)) =
              posts s @ (if truthy (CHAT_API_URL e)
                         then map (\<lambda>p. (build_chatData (snd p) (heap s (snd p)),
                                         messages (heap s (snd p))))
                                (overdue_entries now s 0)
                         else []) \<and>
            map snd (files (sweep_resumed e (length (tasks s)) clocks (sweep_tick e now s))) =
              map snd (files s) @
                (if truthy (CHAT_API_URL e) then []
                 else map (\<lambda>p. (build_chatData (snd p) (heap s (snd p)), messages (heap s (snd p))))
                        (overdue_entries now s 0))"
  proof
    assume run: "unique_keys (activeChats s) \<and> 2 * length (activeChats s) \<le> length clocks"
    then have uk: "unique_keys (activeChats s)"
      and enough: "2 * (length (activeChats s) - 0) \<le> length clocks"
      by simp_all
    note all = sweep_run_from [OF uk enough, of e now 0]
    have stamps: "jm_get (chatLastActivity
                         (sweep_resumed e (length (tasks s)) clocks (sweep_tick e now s))) chatId' =
                 (if sweep_overdue now s k then Some now else jm_get (chatLastActivity s) chatId')"
      if "k < length (activeChats s)" and "activeChats s ! k = Some (chatId', r')" for k chatId' r'
      using all overdue_entries_ids [OF uk that, of now] by (simp add: sweep_tick_def)
    show "tasks (sweep_resumed e (length (tasks s)) clocks (sweep_tick e now s)) = tasks s \<and>
            (\<forall>k chatId' r'. k < length (activeChats s) \<and> activeChats s ! k = Some (chatId', r') \<longrightarrow>
               jm_get (chatLastActivity
                         (sweep_resumed e (length (tasks s)) clocks (sweep_tick e now s))) chatId' =
                 (if sweep_overdue now s k then Some now else jm_get (chatLastActivity s) chatId')) \<and>
            posts (sweep_resumed e (length (tasks s)) clocks (sweep_tick e now s)) =
              posts s @ (if truthy (CHAT_API_URL e)
                         then map (\<lambda>p. (build_chatData (snd p) (heap s (snd p)),
                                         messages (heap s (snd p))))
                                (overdue_entries now s 0)
                         else []) \<and>
            map snd (files (sweep_resumed e (length (tasks s)) clocks (sweep_tick e now s))) =
              map snd (files s) @
                (if truthy (CHAT_API_URL e) then []
                 else map (\<lambda>p. (build_chatData (snd p) (heap s (snd p)), messages (heap s (snd p))))
                        (overdue_entries now s 0))"
      using all stamps by (simp add: sweep_tick_def)
  qed
  show ?thesis
    using ended at_j resumed whole by (simp add: AUTOSAVE_INTERVAL_def sweep_tick_def)
qed

theorem C3_sweep_threshold_witness:
  "activeChats s_mixed = [None, Some (''chat_k2'', 1), Some (''chat_k1'', 2)] \<and>
   \<not> sweep_overdue 303001 s_mixed 0 \<and> \<not> sweep_overdue 303001 s_mixed (Suc 0) \<and>
   truthy (agent (heap s_mixed 2)) \<and> messages (heap s_mixed 2) \<noteq> [] \<and>
   jm_get (chatLastActivity s_mixed) ''chat_k1'' = Some 3000 \<and>
   sweep_tick env_default 303001 s_mixed =
     (snd (save_begin env_default 2 s_mixed))
        \<lparr>tasks := tasks s_mixed @
           [(K_sweep 303001 0 3 ''chat_k1'', fst (save_begin env_default 2 s_mixed))]\<rparr> \<and>
   sweep_tick env_default 303000 s_mixed = s_mixed \<and>
   unique_keys (activeChats s_mixed) \<and>
   tasks (sweep_resumed env_default 0 [304000, 304001, 304002, 304003, 304004, 304005]
            (sweep_tick env_default 303001 s_mixed)) = [] \<and>
   jm_get (chatLastActivity
             (sweep_resumed env_default 0 [304000, 304001, 304002, 304003, 304004, 304005]
                (sweep_tick env_default 303001 s_mixed))) ''chat_k1'' = Some 303001 \<and>
   jm_get (chatLastActivity
             (sweep_resumed env_default 0 [304000, 304001, 304002, 304003, 304004, 304005]
                (sweep_tick env_default 303001 s_mixed))) ''chat_k2'' = None \<and>
   map snd (files (sweep_resumed env_default 0 [304000, 304001, 304002, 304003, 304004, 304005]
                     (sweep_tick env_default 303001 s_mixed))) =
     map snd (files s_mixed) @ [(build_chatData 2 (heap s_mixed 2), messages (heap s_mixed 2))]"
proof -
  let ?clocks = "[304000, 304001, 304002, 304003, 304004, 304005] :: int list"
  let ?run = "sweep_resumed env_default 0 ?clocks (sweep_tick env_default 303001 s_mixed)"
  have before: "\<forall>k. 0 \<le> k \<and> k < 2 \<longrightarrow> \<not> sweep_overdue now s_mixed k" for now
    using s_mixed_overdue(1,2) [of now] by (auto simp: less_Suc_eq numeral_2_eq_2)
  have before3: "\<forall>k. 0 \<le> k \<and> k < 3 \<longrightarrow> \<not> sweep_overdue 303000 s_mixed k"
    using s_mixed_overdue(1,2) [of 303000] s_mixed_overdue(4)
    by (auto simp: less_Suc_eq numeral_2_eq_2 numeral_3_eq_3)
  note at_two = C3_sweep_threshold [OF le0 before, where now = 303001 and e = env_default
      and c = 0 and chatId = "''chat_k1''" and r = 2 and clocks = ?clocks]
  note past_end = C3_sweep_threshold [OF le0 before3, where e = env_default and c = 0]
  have tick: "sweep_tick env_default 303001 s_mixed =
     (snd (save_begin env_default 2 s_mixed))
        \<lparr>tasks := tasks s_mixed @
           [(K_sweep 303001 0 3 ''chat_k1'', fst (save_begin env_default 2 s_mixed))]\<rparr>"
    using at_two [THEN conjunct2, THEN conjunct2, THEN conjunct2, THEN conjunct1]
      at_two [THEN conjunct2, THEN conjunct1]
    by (simp add: s_mixed_eval truthy_def AUTOSAVE_INTERVAL_def)
  have none: "sweep_tick env_default 303000 s_mixed = s_mixed"
    using past_end [THEN conjunct2, THEN conjunct2, THEN conjunct1]
      past_end [THEN conjunct2, THEN conjunct1]
    by (simp add: s_mixed_eval)
  have hyp: "unique_keys (activeChats s_mixed) \<and> 2 * length (activeChats s_mixed) \<le> length ?clocks"
    using s_mixed_entries(2) by (simp add: s_mixed_eval)
  note whole = at_two [THEN conjunct2, THEN conjunct2, THEN conjunct2, THEN conjunct2,
      THEN conjunct2, THEN mp, OF hyp]
  have no_url: "\<not> truthy (CHAT_API_URL env_default)"
    by (simp add: env_default_def truthy_def)
  have done_tasks: "tasks ?run = []"
    using whole [THEN conjunct1] by (simp add: s_mixed_eval del: sweep_resumed.simps)
  have k1: "jm_get (chatLastActivity ?run) ''chat_k1'' = Some 303001"
    using whole [THEN conjunct2, THEN conjunct1, rule_format, of 2 "''chat_k1''" 2]
    by (simp add: s_mixed_eval s_mixed_overdue del: sweep_resumed.simps)
  have k2: "jm_get (chatLastActivity ?run) ''chat_k2'' = None"
    using whole [THEN conjunct2, THEN conjunct1, rule_format, of "Suc 0" "''chat_k2''" 1]
    by (simp add: s_mixed_eval s_mixed_overdue del: sweep_resumed.simps)
  have written: "map snd (files ?run) =
     map snd (files s_mixed) @ [(build_chatData 2 (heap s_mixed 2), messages (heap s_mixed 2))]"
    using whole [THEN conjunct2, THEN conjunct2, THEN conjunct2] no_url
    by (simp add: s_mixed_eval s_mixed_entries del: sweep_resumed.simps)
  have chat: "activeChats s_mixed = [None, Some (''chat_k2'', 1), Some (''chat_k1'', 2)] \<and>
      \<not> sweep_overdue 303001 s_mixed 0 \<and> \<not> sweep_overdue 303001 s_mixed (Suc 0) \<and>
      truthy (agent (heap s_mixed 2)) \<and> messages (heap s_mixed 2) \<noteq> [] \<and>
      jm_get (chatLastActivity s_mixed) ''chat_k1'' = Some 3000"
    by (simp add: s_mixed_eval s_mixed_overdue truthy_def)
  show ?thesis
    using chat tick none hyp done_tasks k1 k2 written by blast
qed

text \<open>
  Claim C3 as stated fails: the chat has an agent and two messages, its last activity is
  200 seconds old, more than the 2 minutes of \<^verbatim>\<open>INACTIVITY_SAVE_DELAY\<close>, and the sweep
  saves nothing and stamps nothing.
\<close>

theorem C3_two_minutes_not_enough_counterexample:
  "truthy (agent (heap s_timer_saved 0)) \<and>
   map msg_id (messages (heap s_timer_saved 0)) = [''msg_m1'', ''msg_m5''] \<and>
   jm_get (chatLastActivity s_timer_saved) ''chat_k1'' = Some 3000 \<and>
   203000 - 3000 > INACTIVITY_SAVE_DELAY \<and>
   sweep_tick env_default 203000 s_timer_saved = s_timer_saved"
proof -
  have "sweep_loop env_default 203000 0 0 s_timer_saved = s_timer_saved"
    by (simp add: sweep_loop_assigned [of 0 s_timer_saved "''chat_k1''" 0] s_timer_saved_chat
          sweep_loop_end truthy_def AUTOSAVE_INTERVAL_def)
  then show ?thesis
    by (simp add: sweep_tick_def s_timer_saved_chat truthy_def INACTIVITY_SAVE_DELAY_def)
qed

section \<open>The persist operation\<close>


text \<open>Every failure of the remote write leads to the fallback, with the same object.\<close>

lemma remote_failure_falls_back:
  "io \<noteq> Io_ok \<Longrightarrow> save_resume (Await_fetch cd) io now s = Some (Inl (Await_fs cd), s)"
  "save_resume (Await_json cd) Io_fail now s = Some (Inl (Await_fs cd), s)"
  by (cases io; simp)+

text \<open>A failure is returned only out of the fallback, when \<^verbatim>\<open>mkdir\<close> or \<^verbatim>\<open>writeFile\<close> failed.\<close>

lemma failure_only_after_fallback_failed:
  assumes "save_resume pc io now s = Some (Inr res, s')" and "\<not> success res"
  shows "io = Io_fail \<and> (pc = Await_fs (pc_chatData pc) \<or> (\<exists>name body. pc = Await_write (pc_chatData pc) name body))"
  using assms by (cases pc; cases io) auto

text \<open>
  When nothing is appended between the call and the write, the file holds the messages the
  chat had at the call.
\<close>

lemma fallback_body_without_append:
  "messages (heap s' r) = messages (heap s r) \<Longrightarrow>
   save_resume (Await_fs (build_chatData r (heap s r))) Io_ok now s' =
     Some (Inl (Await_write (build_chatData r (heap s r)) (chatroom_id (heap s' r), now)
                  (build_chatData r (heap s r), messages (heap s r))), s')"
  by (simp add: stringify_def build_chatData_def Let_def)

lemma s_save_done_files:
  "files s_save_done =
     [((''chat_k1'', 6500),
       (\<lparr> cd_chatroom_id = ''chat_k1'', agent_id = Some ''Ann'', user_id = Some ''u1'',
           user_name = Some ''Alice'', user_email = [], user_phone = [], user_ip = ''10.0.0.7'',
           socket_id = ''c1'', status = ''closed'', last_message_at = ''T5'', messages_ref = 0 \<rparr>,
        [\<lparr> msg_id = ''msg_m1'', content = Some ''hello'', sender = ''user'',
            senderName = Some ''Alice'', time = ''T2'' \<rparr>,
         \<lparr> msg_id = ''msg_m5'', content = Some ''hi Alice'', sender = ''agent'',
            senderName = Some ''Ann'', time = ''T5'' \<rparr>,
         \<lparr> msg_id = ''msg_m8'', content = Some ''one more thing'', sender = ''user'',
            senderName = Some ''Alice'', time = ''T8'' \<rparr>]))]"
  by (simp add: s_save_done_def s_save_late_message_def s_save_begun_def s_agent_eval s_hello_eval
        s_open_eval handler_defs example_defs Let_def)

text \<open>
  Claim C2 fails on the code in the fallback path. The save is triggered when the chat holds
  the messages m1 and m5; the message m8 is appended while the save is suspended; the file
  written for that save holds m1, m5 and m8, with the \<^verbatim>\<open>last_message_at\<close> of m5. The object
  \<^verbatim>\<open>chatData\<close> holds the live array \<^verbatim>\<open>chat.messages\<close>, and the fallback serialises it only
  after the awaits of the \<^verbatim>\<open>catch\<close> block.
\<close>

theorem C2_fallback_file_holds_later_message:
  "map msg_id (messages (heap s_agent 0)) = [''msg_m1'', ''msg_m5''] \<and>
   heap s_save_begun = heap s_agent \<and>
   posts s_save_done = [] \<and>
   map fst (files s_save_done) = [(''chat_k1'', 6500)] \<and>
   map msg_id (snd (snd (hd (files s_save_done)))) = [''msg_m1'', ''msg_m5'', ''msg_m8''] \<and>
   last_message_at (fst (snd (hd (files s_save_done)))) = ''T5''"
proof -
  have "posts s_save_done = []"
    by (simp add: s_save_done_def s_save_late_message_def s_save_begun_def s_agent_eval s_hello_eval
        s_open_eval handler_defs example_defs Let_def)
  moreover have "heap s_save_begun = heap s_agent"
    by (simp add: s_save_begun_def s_agent_eval s_hello_eval s_open_eval handler_defs example_defs Let_def)
  ultimately show ?thesis
    by (simp add: s_save_done_files s_agent_eval s_hello_eval s_open_eval)
qed

text \<open>
  Claim C6 fails on the code where it says that the same snapshot is written to the fallback.
  The remote store is tried first and is sent m1 and m5; it answers with a status that is not
  ok; the message m8 was appended meanwhile; the fallback file, keyed by the chat id and the
  time of the write, has the same scalar fields as the request and the messages m1, m5 and m8.
\<close>

theorem C6_fallback_differs_from_request:
  "map msg_id (messages (heap s_agent 0)) = [''msg_m1'', ''msg_m5''] \<and>
   map fst (files s_post_fell_back) = [(''chat_k1'', 6500)] \<and>
   map fst (posts s_post_fell_back) = map fst (map snd (files s_post_fell_back)) \<and>
   map msg_id (snd (hd (posts s_post_fell_back))) = [''msg_m1'', ''msg_m5''] \<and>
   map msg_id (snd (snd (hd (files s_post_fell_back)))) = [''msg_m1'', ''msg_m5'', ''msg_m8'']"
  by (simp add: s_post_fell_back_def s_post_late_message_def s_post_begun_def s_agent_eval s_hello_eval
        s_open_eval handler_defs example_defs Let_def)

text \<open>
  The \<^verbatim>\<open>last_message_at\<close> of the record built by \<^verbatim>\<open>saveChatToDatabase\<close> for a
  chat is the time of the chat's last message when it has messages, and the chat's
  \<^verbatim>\<open>createdAt\<close> when it has none (the chat as it is when the function is called). Every record
  the save hands to \<^verbatim>\<open>fetch\<close> or writes to a file carries the scalar fields of that object:
  the save starts with it, each resumption keeps it, and a request or a file is only ever
  added with it.
\<close>

lemma record_scalars_of_call:
  "last_message_at (build_chatData r c) =
     (if messages c = [] then createdAt c else time (last (messages c))) \<and>
   pc_chatData (fst (save_begin e r s)) = build_chatData r (heap s r) \<and>
   pc_consistent (fst (save_begin e r s)) \<and>
   (posts (snd (save_begin e r s)) = posts s \<or>
    posts (snd (save_begin e r s)) = posts s @ [(build_chatData r (heap s r), messages (heap s r))]) \<and>
   files (snd (save_begin e r s)) = files s \<and>
   (pc_consistent pc \<and> save_resume pc io now s' = Some (Inl pc', s'') \<longrightarrow>
      pc_chatData pc' = pc_chatData pc \<and> pc_consistent pc' \<and>
      posts s'' = posts s' \<and> files s'' = files s') \<and>
   (pc_consistent pc \<and> save_resume pc io now s' = Some (Inr res, s'') \<longrightarrow>
      posts s'' = posts s' \<and>
      (files s'' = files s' \<or>
       (\<exists>name ms. files s'' = files s' @ [(name, (pc_chatData pc, ms))])))"
proof -
  have built: "last_message_at (build_chatData r c) =
     (if messages c = [] then createdAt c else time (last (messages c)))"
    by (simp add: build_chatData_def Let_def split: list.splits)
  have step: "pc_consistent pc \<and> save_resume pc io now s' = Some (Inl pc', s'') \<longrightarrow>
      pc_chatData pc' = pc_chatData pc \<and> pc_consistent pc' \<and>
      posts s'' = posts s' \<and> files s'' = files s'"
    by (cases pc; cases io) (auto simp: stringify_def)
  have finished: "pc_consistent pc \<and> save_resume pc io now s' = Some (Inr res, s'') \<longrightarrow>
      posts s'' = posts s' \<and>
      (files s'' = files s' \<or>
       (\<exists>name ms. files s'' = files s' @ [(name, (pc_chatData pc, ms))]))"
    by (cases pc; cases io) (auto simp: prod_eq_iff)
  show ?thesis
    using built step finished by (simp add: save_begin_cases)
qed

lemma record_scalars_of_call_example:
  "last_message_at (build_chatData 0 (heap s_agent 0)) = ''T5'' \<and>
   last_message_at (build_chatData 0 (heap s_open 0)) = ''T1'' \<and>
   pc_consistent (Await_fs (build_chatData 0 (heap s_agent 0))) \<and>
   save_resume (Await_fs (build_chatData 0 (heap s_agent 0))) Io_ok 6500 s_save_late_message =
     Some (Inl (Await_write (build_chatData 0 (heap s_agent 0)) (''chat_k1'', 6500)
                  (build_chatData 0 (heap s_agent 0), messages (heap s_save_late_message 0))),
           s_save_late_message) \<and>
   pc_chatData (Await_write (build_chatData 0 (heap s_agent 0)) (''chat_k1'', 6500)
                  (build_chatData 0 (heap s_agent 0), messages (heap s_save_late_message 0)))
     = build_chatData 0 (heap s_agent 0) \<and>
   pc_consistent (Await_write (build_chatData 0 (heap s_agent 0)) (''chat_k1'', 6500)
                  (build_chatData 0 (heap s_agent 0), messages (heap s_save_late_message 0))) \<and>
   (\<exists>res s''.
      save_resume (Await_write (build_chatData 0 (heap s_agent 0)) (''chat_k1'', 6500)
                     (build_chatData 0 (heap s_agent 0), messages (heap s_save_late_message 0)))
        Io_ok 6600 s_save_late_message = Some (Inr res, s'') \<and>
      posts s'' = posts s_save_late_message \<and>
      (\<exists>name ms. files s'' =
         files s_save_late_message @ [(name, (build_chatData 0 (heap s_agent 0), ms))]))"
proof -
  let ?cd = "build_chatData 0 (heap s_agent 0)"
  let ?pc = "Await_write ?cd (''chat_k1'', 6500) (?cd, messages (heap s_save_late_message 0))"
  let ?res = "\<lparr> success = True,
                sr_chatId = Some (chatroom_id (heap s_save_late_message (messages_ref ?cd))),
                fallback = True \<rparr>"
  let ?s'' = "s_save_late_message\<lparr>files := files s_save_late_message @
                 [((''chat_k1'', 6500), (?cd, messages (heap s_save_late_message 0)))]\<rparr>"
  have "chatroom_id (heap s_save_late_message 0) = ''chat_k1''"
    by (simp add: s_save_late_message_def s_save_begun_def s_agent_eval s_hello_eval
        s_open_eval handler_defs example_defs Let_def)
  then have resumed: "save_resume (Await_fs ?cd) Io_ok 6500 s_save_late_message =
     Some (Inl ?pc, s_save_late_message)"
    by (simp add: stringify_def build_chatData_def Let_def)
  have written: "save_resume ?pc Io_ok 6600 s_save_late_message = Some (Inr ?res, ?s'')"
    by simp
  have chats: "time (last (messages (heap s_agent 0))) = ''T5''" "messages (heap s_agent 0) \<noteq> []"
    "messages (heap s_open 0) = []" "createdAt (heap s_open 0) = ''T1''"
    by (simp_all add: s_agent_eval s_hello_eval s_open_eval example_defs)
  have "posts ?s'' = posts s_save_late_message \<and>
      (\<exists>name ms. files ?s'' = files s_save_late_message @ [(name, (?cd, ms))])"
    using written
      record_scalars_of_call [where pc = ?pc and io = Io_ok and now = 6600
        and s' = s_save_late_message and res = ?res and s'' = ?s'']
    by simp
  with written have last: "\<exists>res s''.
      save_resume ?pc Io_ok 6600 s_save_late_message = Some (Inr res, s'') \<and>
      posts s'' = posts s_save_late_message \<and>
      (\<exists>name ms. files s'' = files s_save_late_message @ [(name, (?cd, ms))])"
    by blast
  have first: "last_message_at ?cd = ''T5'' \<and>
      last_message_at (build_chatData 0 (heap s_open 0)) = ''T1'' \<and>
      pc_chatData ?pc = ?cd \<and> pc_consistent ?pc"
    using chats resumed
      record_scalars_of_call [where r = 0 and c = "heap s_agent 0" and pc = "Await_fs ?cd"
        and io = Io_ok and now = 6500 and s' = s_save_late_message and s'' = s_save_late_message
        and pc' = ?pc]
      record_scalars_of_call [where r = 0 and c = "heap s_open 0"]
    by simp
  show ?thesis
    using first last resumed by simp
qed

text \<open>
  Claim C10 fails on the code for the fallback record, by the defect of claim C2. A save
  is called on a chat without messages and a message (time T2) is appended before the file
  is written: the record holds that message and the \<^verbatim>\<open>createdAt\<close> of the chat (T1) as
  \<^verbatim>\<open>last_message_at\<close>. A save is called when the last message has time T5 and a message of
  time T8 is appended before the write: the record ends with the message of T8 and has
  \<^verbatim>\<open>last_message_at\<close> T5.
\<close>

theorem C10_fallback_record_last_message_at_stale:
  "messages (heap s_open 0) = [] \<and>
   createdAt (heap s_open 0) = ''T1'' \<and>
   map fst (files s_empty_save_done) = [(''chat_k1'', 1500)] \<and>
   last_message_at (fst (snd (hd (files s_empty_save_done)))) = ''T1'' \<and>
   map time (snd (snd (hd (files s_empty_save_done)))) = [''T2''] \<and>
   map fst (files s_save_done) = [(''chat_k1'', 6500)] \<and>
   last_message_at (fst (snd (hd (files s_save_done)))) = ''T5'' \<and>
   time (last (snd (snd (hd (files s_save_done))))) = ''T8''"
proof -
  have "files s_empty_save_done =
     [((''chat_k1'', 1500),
       (build_chatData 0 (heap s_open 0),
        [\<lparr> msg_id = ''msg_m1'', content = Some ''hello'', sender = ''user'',
            senderName = Some ''Alice'', time = ''T2'' \<rparr>]))]"
    by (simp add: s_empty_save_done_def s_open_eval handler_defs example_defs Let_def)
  moreover have "last_message_at (build_chatData 0 (heap s_open 0)) = ''T1''"
    "messages (heap s_open 0) = []" "createdAt (heap s_open 0) = ''T1''"
    by (simp_all add: s_open_eval build_chatData_def example_defs)
  ultimately show ?thesis
    by (simp add: s_save_done_files)
qed

end
